theory Spec2Isabelle
  imports Main
begin

section \<open>Python values used by \<^verbatim>\<open>pkit/core.py\<close>\<close>

text \<open>
  The module \<^verbatim>\<open>src/pkit/core.py\<close> defines the class \<^verbatim>\<open>SystemMonitor\<close> with the methods
  \<^verbatim>\<open>log\<close>, \<^verbatim>\<open>get_disk_info\<close>, \<^verbatim>\<open>check_disk_health\<close> and \<^verbatim>\<open>monitor_system\<close>.
  Everything the methods obtain from the operating system (the file system, the clock,
  \<^verbatim>\<open>psutil\<close>, child processes) is an explicit argument of the model; every exception is a
  value.

  A Python \<^verbatim>\<open>str\<close> is modelled as a \<^typ>\<open>string\<close>; the characters are the code points
  below 256.
\<close>

datatype exn =
    AttributeError
  | CalledProcessError
  | OSError
  | UnicodeDecodeError
  | IndexError
  | ValueError
  | KeyboardInterrupt

text \<open>\<^verbatim>\<open>xs[i]\<close> for a non-negative literal index: out of range raises \<^verbatim>\<open>IndexError\<close>.\<close>

definition item :: "'a list \<Rightarrow> nat \<Rightarrow> exn + 'a" where
  "item xs i = (if i < length xs then Inr (xs ! i) else Inl IndexError)"

text \<open>\<^verbatim>\<open>s.startswith(p)\<close>.\<close>

fun startswith :: "string \<Rightarrow> string \<Rightarrow> bool" where
  "startswith s [] = True"
| "startswith [] (p # ps) = False"
| "startswith (c # cs) (p # ps) = (c = p \<and> startswith cs ps)"

text \<open>\<^verbatim>\<open>sub in s\<close> on strings: \<^verbatim>\<open>sub\<close> starts at some position of \<^verbatim>\<open>s\<close>.\<close>

fun str_contains :: "string \<Rightarrow> string \<Rightarrow> bool" where
  "str_contains sub [] = (sub = [])"
| "str_contains sub (c # cs) = (startswith (c # cs) sub \<or> str_contains sub cs)"

text \<open>\<^verbatim>\<open>s.split(sep)\<close> for a separator of one character: never the empty list.\<close>

fun split_on :: "char \<Rightarrow> string \<Rightarrow> string list" where
  "split_on sep [] = [[]]"
| "split_on sep (c # cs) =
     (if c = sep then [] # split_on sep cs
      else (case split_on sep cs of
              [] \<Rightarrow> [[c]]
            | p # ps \<Rightarrow> (c # p) # ps))"

text \<open>\<^verbatim>\<open>s.split(sep, 1)\<close>: at most one split, at the first separator.\<close>

fun split_once :: "char \<Rightarrow> string \<Rightarrow> string list" where
  "split_once sep [] = [[]]"
| "split_once sep (c # cs) =
     (if c = sep then [[], cs]
      else (case split_once sep cs of
              [] \<Rightarrow> [[c]]
            | p # ps \<Rightarrow> (c # p) # ps))"

text \<open>
  The characters for which \<^verbatim>\<open>str.isspace\<close> holds, among the code points below 256:
  U+0009 to U+000D, U+001C to U+0020, U+0085 and U+00A0.
\<close>

definition isspace :: "char \<Rightarrow> bool" where
  "isspace c = (c \<in> set [CHR 0x09, CHR 0x0A, CHR 0x0B, CHR 0x0C, CHR 0x0D,
                          CHR 0x1C, CHR 0x1D, CHR 0x1E, CHR 0x1F, CHR 0x20,
                          CHR 0x85, CHR 0xA0])"

text \<open>\<^verbatim>\<open>s.strip()\<close>: white space removed at both ends.\<close>

definition strip :: "string \<Rightarrow> string" where
  "strip s = rev (dropWhile isspace (rev (dropWhile isspace s)))"

text \<open>\<^verbatim>\<open>s.split()\<close>: the maximal runs of characters that are not white space.\<close>

fun split_ws :: "string \<Rightarrow> string list" where
  "split_ws [] = []"
| "split_ws (c # cs) =
     (if isspace c then split_ws cs
      else (case cs of
              [] \<Rightarrow> [[c]]
            | d # _ \<Rightarrow>
                if isspace d then [c] # split_ws cs
                else (case split_ws cs of
                        [] \<Rightarrow> [[c]]
                      | w # ws \<Rightarrow> (c # w) # ws)))"

text \<open>
  A child process started by \<^verbatim>\<open>subprocess\<close>: either it could not be started or waited for
  (\<open>Fault\<close>: the binary is missing, permission is denied, the wait is interrupted), or it
  exited with a status and with a standard output, which is \<open>None\<close> when its bytes are not
  valid UTF-8 and the decoded text otherwise.
\<close>

datatype proc = Fault exn | Exited int "string option"

text \<open>\<^verbatim>\<open>subprocess.check_output(cmd, ...).decode()\<close>.\<close>

definition check_output_decode :: "proc \<Rightarrow> exn + string" where
  "check_output_decode p =
     (case p of
        Fault e \<Rightarrow> Inl e
      | Exited rc out \<Rightarrow>
          if rc \<noteq> 0 then Inl CalledProcessError
          else (case out of None \<Rightarrow> Inl UnicodeDecodeError | Some s \<Rightarrow> Inr s))"

text \<open>\<^verbatim>\<open>subprocess.check_call(cmd, ...)\<close>: the output is discarded.\<close>

definition check_call :: "proc \<Rightarrow> exn + unit" where
  "check_call p =
     (case p of
        Fault e \<Rightarrow> Inl e
      | Exited rc out \<Rightarrow> if rc \<noteq> 0 then Inl CalledProcessError else Inr ())"

section \<open>\<^verbatim>\<open>get_disk_info\<close>\<close>

text \<open>
  What \<^verbatim>\<open>get_disk_info\<close> reads from the host.
  \<^item> \<open>path_exists\<close> is \<^verbatim>\<open>os.path.exists\<close>, which returns a truth value for every string.
  \<^item> \<open>os_path_isblock\<close> is the attribute \<^verbatim>\<open>isblock\<close> of the module \<^verbatim>\<open>os.path\<close>:
    \<open>None\<close> when the module has no such attribute, so that evaluating
    \<^verbatim>\<open>os.path.isblock\<close> raises \<^verbatim>\<open>AttributeError\<close>, and \<open>Some f\<close> when a function \<open>f\<close> has
    been installed under that name. The modules \<^verbatim>\<open>posixpath\<close> and \<^verbatim>\<open>ntpath\<close> of CPython
    define \<^verbatim>\<open>isabs\<close>, \<^verbatim>\<open>isdir\<close>, \<^verbatim>\<open>isfile\<close>, \<^verbatim>\<open>islink\<close> and \<^verbatim>\<open>ismount\<close> and no
    \<^verbatim>\<open>isblock\<close> (the test for a block special file is \<^verbatim>\<open>stat.S_ISBLK\<close>).
  \<^item> \<open>st_size\<close> is \<^verbatim>\<open>os.stat(device).st_size\<close>, which may raise.
  \<^item> \<open>proc_mounts\<close> is the list of lines of \<^verbatim>\<open>/proc/mounts\<close>, or the exception raised by
    opening or reading it.
  \<^item> \<open>run\<close> is the outcome of running a command line.
\<close>

record host =
  path_exists :: "string \<Rightarrow> bool"
  os_path_isblock :: "(string \<Rightarrow> bool) option"
  st_size :: "string \<Rightarrow> exn + int"
  proc_mounts :: "exn + string list"
  run :: "string list \<Rightarrow> proc"

text \<open>The dictionary returned on success.\<close>

record device_info =
  size :: int
  mounted :: bool
  model :: string
  device :: string

text \<open>
  Lines 41 to 44: the first line containing \<^verbatim>\<open>Model Number:\<close> gives the model, the text
  after its first colon, stripped; without such a line \<^verbatim>\<open>model\<close> keeps its value \<^verbatim>\<open>""\<close>.
\<close>

fun scan_model_number :: "string list \<Rightarrow> exn + string" where
  "scan_model_number [] = Inr []"
| "scan_model_number (line # rest) =
     (if str_contains ''Model Number:'' line
      then (case item (split_once CHR '':'' line) 1 of
              Inl e \<Rightarrow> Inl e
            | Inr v \<Rightarrow> Inr (strip v))
      else scan_model_number rest)"

text \<open>Lines 50 to 53: the same scan for the first line that starts with \<^verbatim>\<open>mn\<close>.\<close>

fun scan_mn :: "string list \<Rightarrow> exn + string" where
  "scan_mn [] = Inr []"
| "scan_mn (line # rest) =
     (if startswith line ''mn''
      then (case item (split_once CHR '':'' line) 1 of
              Inl e \<Rightarrow> Inl e
            | Inr v \<Rightarrow> Inr (strip v))
      else scan_mn rest)"

text \<open>The body of the \<^verbatim>\<open>try\<close> of lines 39 to 44, and that of lines 48 to 53.\<close>

definition hdparm_cmd :: "string \<Rightarrow> string list" where
  "hdparm_cmd dev = [''hdparm'', ''-I'', dev]"

definition nvme_id_cmd :: "string \<Rightarrow> string list" where
  "nvme_id_cmd dev = [''nvme'', ''id-ctrl'', dev]"

definition ata_model :: "host \<Rightarrow> string \<Rightarrow> exn + string" where
  "ata_model h dev =
     (case check_output_decode (run h (hdparm_cmd dev)) of
        Inl e \<Rightarrow> Inl e
      | Inr output \<Rightarrow> scan_model_number (split_on CHR 0x0A output))"

definition nvme_model :: "host \<Rightarrow> string \<Rightarrow> exn + string" where
  "nvme_model h dev =
     (case check_output_decode (run h (nvme_id_cmd dev)) of
        Inl e \<Rightarrow> Inl e
      | Inr output \<Rightarrow> scan_mn (split_on CHR 0x0A output))"

text \<open>
  Lines 37 to 55. The result is the list of the command lines run, in order, and the value
  of \<^verbatim>\<open>model\<close> after the block. Both \<^verbatim>\<open>except:\<close> clauses are bare and catch every
  exception, so the block itself never raises.
\<close>

definition read_model :: "host \<Rightarrow> string \<Rightarrow> string list list \<times> string" where
  "read_model h dev =
     (case ata_model h dev of
        Inr m \<Rightarrow> ([hdparm_cmd dev], m)
      | Inl _ \<Rightarrow>
          if startswith dev ''/dev/nvme''
          then (case nvme_model h dev of
                  Inr m \<Rightarrow> ([hdparm_cmd dev, nvme_id_cmd dev], m)
                | Inl _ \<Rightarrow> ([hdparm_cmd dev, nvme_id_cmd dev], []))
          else ([hdparm_cmd dev], []))"

text \<open>Lines 29 to 62, the body of the outer \<^verbatim>\<open>try\<close>.\<close>

definition disk_info_body :: "host \<Rightarrow> string \<Rightarrow> exn + device_info" where
  "disk_info_body h dev =
     (case st_size h dev of
        Inl e \<Rightarrow> Inl e
      | Inr size_bytes \<Rightarrow>
          (let size_gb = size_bytes div (1024 ^ 3) in
           case proc_mounts h of
             Inl e \<Rightarrow> Inl e
           | Inr lines \<Rightarrow>
               (let mounted = list_ex (str_contains dev) lines;
                    model = snd (read_model h dev)
                in Inr \<lparr>size = size_gb, mounted = mounted, model = model, device = dev\<rparr>)))"

text \<open>
  Lines 24 to 64. The test of line 25 stands before the \<^verbatim>\<open>try\<close>; \<^verbatim>\<open>or\<close> evaluates its
  right operand, and with it the attribute \<^verbatim>\<open>os.path.isblock\<close>, only when the path exists.
  The \<^verbatim>\<open>except:\<close> of line 63 is bare. \<open>Inr None\<close> is the return value \<^verbatim>\<open>None\<close>.
\<close>

definition get_disk_info :: "host \<Rightarrow> string \<Rightarrow> exn + device_info option" where
  "get_disk_info h dev =
     (if \<not> path_exists h dev then Inr None
      else (case os_path_isblock h of
              None \<Rightarrow> Inl AttributeError
            | Some isblock \<Rightarrow>
                if \<not> isblock dev then Inr None
                else (case disk_info_body h dev of
                        Inl _ \<Rightarrow> Inr None
                      | Inr info \<Rightarrow> Inr (Some info))))"

section \<open>The state the other two methods change\<close>

text \<open>
  \<^item> \<open>clock\<close> and \<open>reads\<close>: \<open>clock w n\<close> is the text that
    \<^verbatim>\<open>datetime.now().strftime("%Y-%m-%d %H:%M:%S")\<close> gives at the \<open>n\<close>-th reading of the
    clock, and \<open>reads\<close> counts the readings so far.
  \<^item> \<open>mb_text n\<close> is the text that an f-string prints for the float \<^verbatim>\<open>n/1024/1024\<close>.
  \<^item> \<open>console\<close>: the lines printed; \<open>logfile\<close>: the texts appended to
    \<^verbatim>\<open>logs/servertest.log\<close>.
  \<^item> \<open>files\<close>: the content of every other file, by path; \<open>ops\<close>: the writes to those
    files in order, each with the mode the file was opened in.
  \<^item> \<open>spawned\<close>: the command lines handed to \<^verbatim>\<open>subprocess\<close>, in order.
  \<^item> \<open>makedirs p\<close>: what \<^verbatim>\<open>os.makedirs(p, exist_ok=True)\<close> does, \<open>None\<close> when it returns
    and \<open>Some e\<close> when it raises \<open>e\<close> (as it does for the empty path).
  Opening, writing and closing files are taken to succeed, and so is the logger.
\<close>

datatype io_op = Truncate_write string string | Append_write string string

record world =
  clock :: "nat \<Rightarrow> string"
  reads :: nat
  mb_text :: "int \<Rightarrow> string"
  console :: "string list"
  logfile :: "string list"
  files :: "string \<rightharpoonup> string"
  ops :: "io_op list"
  spawned :: "string list list"
  makedirs :: "string \<Rightarrow> exn option"

definition strftime_now :: "world \<Rightarrow> string \<times> world" where
  "strftime_now w = (clock w (reads w), w\<lparr>reads := Suc (reads w)\<rparr>)"

text \<open>
  Lines 14 to 22. \<^verbatim>\<open>self.logs_dir\<close> is a path ending in \<^verbatim>\<open>logs\<close>, never empty, so the
  branch of line 19 is always taken.
\<close>

definition log :: "string \<Rightarrow> string \<Rightarrow> world \<Rightarrow> world" where
  "log level message w =
     (case strftime_now w of
        (timestamp, w1) \<Rightarrow>
          (let log_message = ''['' @ timestamp @ ''] ['' @ level @ ''] '' @ message
           in w1\<lparr>console := console w1 @ [log_message],
                  logfile := logfile w1 @ [log_message @ [CHR 0x0A]]\<rparr>))"

text \<open>\<^verbatim>\<open>with open(path, "w") as f: f.write(text)\<close> and the same with mode \<^verbatim>\<open>"a"\<close>.\<close>

definition write_file :: "string \<Rightarrow> string \<Rightarrow> world \<Rightarrow> world" where
  "write_file path text w =
     w\<lparr>files := (files w)(path \<mapsto> text), ops := ops w @ [Truncate_write path text]\<rparr>"

definition append_file :: "string \<Rightarrow> string \<Rightarrow> world \<Rightarrow> world" where
  "append_file path text w =
     w\<lparr>files := (files w)(path \<mapsto> (case files w path of None \<Rightarrow> text | Some old \<Rightarrow> old @ text)),
       ops := ops w @ [Append_write path text]\<rparr>"

text \<open>Handing a command line to \<^verbatim>\<open>subprocess\<close>.\<close>

definition spawn :: "string list \<Rightarrow> world \<Rightarrow> world" where
  "spawn cmd w = w\<lparr>spawned := spawned w @ [cmd]\<rparr>"

section \<open>\<^verbatim>\<open>check_disk_health\<close>\<close>

text \<open>
  Lines 66 to 81. Only \<^verbatim>\<open>subprocess.CalledProcessError\<close> is caught; any other exception of
  \<^verbatim>\<open>check_call\<close> leaves the method.
\<close>

definition check_disk_health :: "host \<Rightarrow> string \<Rightarrow> world \<Rightarrow> (exn + bool) \<times> world" where
  "check_disk_health h dev w =
     (let w1 = log ''INFO'' (''Checking health of '' @ dev) w;
          cmd = (if str_contains ''nvme'' dev
                 then [''nvme'', ''smart-log'', dev]
                 else [''smartctl'', ''-H'', dev]);
          w2 = spawn cmd w1
      in case check_call (run h cmd) of
           Inr _ \<Rightarrow> (Inr True, w2)
         | Inl e \<Rightarrow>
             if e = CalledProcessError
             then (Inr False, log ''ERROR'' (''Failed to get health status for '' @ dev) w2)
             else (Inl e, w2))"

section \<open>\<^verbatim>\<open>monitor_system\<close>\<close>

text \<open>
  What one iteration of the loop reads: the results of \<^verbatim>\<open>psutil.cpu_times_percent()\<close>
  (its three fields as the f-string prints them) and of \<^verbatim>\<open>psutil.virtual_memory()\<close>
  (byte counts), the outcome of the \<^verbatim>\<open>ipmitool\<close> process, and what \<^verbatim>\<open>time.sleep\<close> does:
  \<open>None\<close> when it returns, \<open>Some e\<close> when it raises \<open>e\<close> (\<^verbatim>\<open>KeyboardInterrupt\<close> for the stop
  signal).
\<close>

record cpu_times =
  cpu_user :: string
  cpu_system :: string
  cpu_idle :: string

record svmem =
  mem_total :: int
  mem_used :: int
  mem_free :: int
  mem_shared :: int
  mem_buffers :: int
  mem_cached :: int
  mem_available :: int

record tick =
  cpu_times_percent :: "exn + cpu_times"
  virtual_memory :: "exn + svmem"
  ipmitool :: proc
  sleep :: "exn option"

text \<open>\<^verbatim>\<open>os.path.join(a, b)\<close> of \<^verbatim>\<open>posixpath\<close>, for two components.\<close>

definition path_join :: "string \<Rightarrow> string \<Rightarrow> string" where
  "path_join a b =
     (if startswith b ''/'' then b
      else if a = [] \<or> last a = CHR ''/'' then a @ b
      else a @ ''/'' @ b)"

definition cpu_header :: string where
  "cpu_header = ''Timestamp,User%,System%,Idle%'' @ [CHR 0x0A]"

definition fan_header :: string where
  "fan_header = ''Timestamp,FAN1_RPM,FAN2_RPM,FAN3_RPM,FAN4_RPM,FANA_RPM'' @ [CHR 0x0A]"

definition mem_header :: string where
  "mem_header = ''Timestamp,Total_Memory_MB,Used_Memory_MB,Free_Memory_MB,Shared_Memory_MB,Buffer_Cache_MB,Available_Memory_MB'' @ [CHR 0x0A]"

text \<open>The texts written at lines 99 and 103 to 105.\<close>

definition cpu_row :: "string \<Rightarrow> cpu_times \<Rightarrow> string" where
  "cpu_row timestamp c =
     timestamp @ '','' @ cpu_user c @ '','' @ cpu_system c @ '','' @ cpu_idle c @ [CHR 0x0A]"

definition mem_row :: "(int \<Rightarrow> string) \<Rightarrow> string \<Rightarrow> svmem \<Rightarrow> string" where
  "mem_row mb timestamp m =
     timestamp @ '','' @ mb (mem_total m) @ '','' @ mb (mem_used m) @ '',''
       @ mb (mem_free m) @ '','' @ mb (mem_shared m) @ '',''
       @ mb (mem_buffers m + mem_cached m) @ '','' @ mb (mem_available m) @ [CHR 0x0A]"

text \<open>
  Lines 110 to 115: the dictionary \<^verbatim>\<open>fans\<close> built from the lines of the tool's output. An
  index out of range raises \<^verbatim>\<open>IndexError\<close>; a later line for the same name replaces the
  earlier value.
\<close>

fun parse_fans :: "string list \<Rightarrow> (string \<rightharpoonup> string) \<Rightarrow> exn + (string \<rightharpoonup> string)" where
  "parse_fans [] fans = Inr fans"
| "parse_fans (line # rest) fans =
     (if str_contains ''FAN'' line \<and> str_contains ''RPM'' line
      then (case item (split_on CHR ''|'' line) 0 of
              Inl e \<Rightarrow> Inl e
            | Inr field0 \<Rightarrow>
                (let fan_name = strip field0 in
                 case item (split_on CHR ''|'' line) 1 of
                   Inl e \<Rightarrow> Inl e
                 | Inr field1 \<Rightarrow>
                     (case item (split_ws (strip field1)) 0 of
                        Inl e \<Rightarrow> Inl e
                      | Inr fan_rpm \<Rightarrow> parse_fans rest (fans(fan_name \<mapsto> fan_rpm)))))
      else parse_fans rest fans)"

definition fan_channels :: "string list" where
  "fan_channels = [''FAN1'', ''FAN2'', ''FAN3'', ''FAN4'', ''FANA'']"

text \<open>
  Lines 118 to 121: the text that reaches \<^verbatim>\<open>fan.csv\<close> through the one file object, with
  \<^verbatim>\<open>fans.get(fan, '0')\<close> for each channel.
\<close>

definition fan_row :: "string \<Rightarrow> (string \<rightharpoonup> string) \<Rightarrow> string" where
  "fan_row timestamp fans =
     timestamp
       @ concat (map (\<lambda>fan. '','' @ (case fans fan of None \<Rightarrow> ''0'' | Some v \<Rightarrow> v)) fan_channels)
       @ [CHR 0x0A]"

text \<open>
  Lines 107 to 123. The \<^verbatim>\<open>except:\<close> of line 122 is bare: it catches every exception raised
  by the tool, by decoding and by parsing.
\<close>

definition fan_step :: "string \<Rightarrow> string \<Rightarrow> tick \<Rightarrow> world \<Rightarrow> world" where
  "fan_step output_dir timestamp t w =
     (let w1 = spawn [''ipmitool'', ''sdr'', ''type'', ''fan''] w
      in case check_output_decode (ipmitool t) of
           Inl _ \<Rightarrow> log ''WARNING'' ''Failed to get fan information'' w1
         | Inr fan_output \<Rightarrow>
             (case parse_fans (split_on CHR 0x0A fan_output) Map.empty of
                Inl _ \<Rightarrow> log ''WARNING'' ''Failed to get fan information'' w1
              | Inr fans \<Rightarrow>
                  append_file (path_join output_dir ''fan.csv'') (fan_row timestamp fans) w1))"

text \<open>\<^verbatim>\<open>time.sleep(interval)\<close>: a negative interval raises \<^verbatim>\<open>ValueError\<close>.\<close>

definition time_sleep :: "int \<Rightarrow> tick \<Rightarrow> exn + unit" where
  "time_sleep interval t =
     (if interval < 0 then Inl ValueError
      else (case sleep t of None \<Rightarrow> Inr () | Some e \<Rightarrow> Inl e))"

text \<open>Lines 95 to 125, one iteration of the loop.\<close>

definition sample_once :: "string \<Rightarrow> int \<Rightarrow> tick \<Rightarrow> world \<Rightarrow> (exn + unit) \<times> world" where
  "sample_once output_dir interval t w =
     (case strftime_now w of
        (timestamp, w1) \<Rightarrow>
          (case cpu_times_percent t of
             Inl e \<Rightarrow> (Inl e, w1)
           | Inr c \<Rightarrow>
               (let w2 = append_file (path_join output_dir ''cpu.csv'') (cpu_row timestamp c) w1
                in case virtual_memory t of
                     Inl e \<Rightarrow> (Inl e, w2)
                   | Inr m \<Rightarrow>
                       (let w3 = append_file (path_join output_dir ''mem.csv'')
                                   (mem_row (mb_text w2) timestamp m) w2;
                            w4 = fan_step output_dir timestamp t w3
                        in (time_sleep interval t, w4)))))"

text \<open>
  The \<^verbatim>\<open>while True\<close> of line 94 never ends by itself. The model runs it on the list of what
  the successive iterations read: \<open>Running\<close> says that the list is used up and the loop is
  still going, \<open>Raised e\<close> that an iteration raised \<open>e\<close>.
\<close>

datatype run_status = Running | Returned | Raised exn

fun sampling_loop :: "string \<Rightarrow> int \<Rightarrow> tick list \<Rightarrow> world \<Rightarrow> run_status \<times> world" where
  "sampling_loop output_dir interval [] w = (Running, w)"
| "sampling_loop output_dir interval (t # ts) w =
     (case sample_once output_dir interval t w of
        (Inl e, w') \<Rightarrow> (Raised e, w')
      | (Inr _, w') \<Rightarrow> sampling_loop output_dir interval ts w')"

text \<open>Lines 86 to 91.\<close>

definition write_headers :: "string \<Rightarrow> world \<Rightarrow> world" where
  "write_headers output_dir w =
     write_file (path_join output_dir ''mem.csv'') mem_header
       (write_file (path_join output_dir ''fan.csv'') fan_header
          (write_file (path_join output_dir ''cpu.csv'') cpu_header w))"

text \<open>
  Lines 83 to 128. Line 84 stands before the \<^verbatim>\<open>try\<close>. \<^verbatim>\<open>except KeyboardInterrupt\<close>
  catches that exception wherever the loop raised it; every other exception leaves the
  method.
\<close>

definition monitor_system :: "string \<Rightarrow> int \<Rightarrow> tick list \<Rightarrow> world \<Rightarrow> run_status \<times> world" where
  "monitor_system output_dir interval ts w =
     (case makedirs w output_dir of
        Some e \<Rightarrow> (Raised e, w)
      | None \<Rightarrow>
          (case sampling_loop output_dir interval ts (write_headers output_dir w) of
             (Raised e, w') \<Rightarrow>
               if e = KeyboardInterrupt then (Returned, log ''INFO'' ''Monitoring stopped'' w')
               else (Raised e, w')
           | (st, w') \<Rightarrow> (st, w')))"

section \<open>The specification's words, and a host to evaluate on\<close>

text \<open>
  The model field as the specification describes it: the first line of the tool's output
  that contains the marker, and of that line the text after the first colon, stripped;
  the empty string without such a line.
\<close>

definition model_number_of :: "string \<Rightarrow> string" where
  "model_number_of output =
     (case filter (str_contains ''Model Number:'') (split_on CHR 0x0A output) of
        [] \<Rightarrow> []
      | line # _ \<Rightarrow> strip (tl (dropWhile (\<lambda>c. c \<noteq> CHR '':'') line)))"

text \<open>
  The same for the first line that begins with the key \<^verbatim>\<open>mn\<close>; a line with the key and
  without a colon gives the empty string.
\<close>

definition mn_of :: "string \<Rightarrow> string" where
  "mn_of output =
     (case filter (\<lambda>line. startswith line ''mn'') (split_on CHR 0x0A output) of
        [] \<Rightarrow> []
      | line # _ \<Rightarrow>
          if CHR '':'' \<in> set line then strip (tl (dropWhile (\<lambda>c. c \<noteq> CHR '':'') line)) else [])"

text \<open>
  A host with two disks, an NVMe namespace and a regular file, on which a function
  \<^verbatim>\<open>isblock\<close> has been installed in \<^verbatim>\<open>os.path\<close>; and the same host with the \<^verbatim>\<open>os.path\<close> of
  CPython.
\<close>

definition lab_host :: host where
  "lab_host =
     \<lparr>path_exists = (\<lambda>p. p \<in> set [''/dev/sda'', ''/dev/sdb'', ''/dev/nvme0n1'', ''/etc/hostname'']),
      os_path_isblock = Some (\<lambda>p. p \<in> set [''/dev/sda'', ''/dev/sdb'', ''/dev/nvme0n1'']),
      st_size = (\<lambda>p. Inr 5368709127),
      proc_mounts = Inr [''/dev/sda1 / ext4 rw,relatime 0 0'' @ [CHR 0x0A]],
      run = (\<lambda>cmd.
        if cmd = [''hdparm'', ''-I'', ''/dev/sda'']
        then Exited 0 (Some (''/dev/sda:'' @ [CHR 0x0A] @ '' Model Number:  WDC WD10EZEX  '' @ [CHR 0x0A]))
        else if cmd = [''nvme'', ''id-ctrl'', ''/dev/nvme0n1'']
        then Exited 0 (Some (''vid : 0x144d'' @ [CHR 0x0A] @ ''mn : Samsung SSD 980 '' @ [CHR 0x0A]))
        else if cmd = [''smartctl'', ''-H'', ''/dev/sda''] then Exited 1 (Some [])
        else if cmd = [''nvme'', ''smart-log'', ''/dev/nvme0n1''] then Exited 0 (Some [])
        else Fault OSError)\<rparr>"

definition stock_host :: host where
  "stock_host = lab_host\<lparr>os_path_isblock := None\<rparr>"

text \<open>A state to evaluate on: a clock that ticks once a reading, nothing printed or run yet,
  and files left in the output directory by an earlier run.\<close>

definition lab_world :: world where
  "lab_world =
     \<lparr>clock = (\<lambda>n. ''2024-05-01 12:00:0'' @ [''0123456789'' ! (n mod 10)]),
      reads = 0,
      mb_text = (\<lambda>n. ''15883.5''),
      console = [],
      logfile = [],
      files = [''out/cpu.csv'' \<mapsto> ''Timestamp,User%,System%,Idle%'' @ [CHR 0x0A]
                                   @ ''2024-04-30 09:00:00,1.0,2.0,97.0'' @ [CHR 0x0A],
               ''out/fan.csv'' \<mapsto> ''stale''],
      ops = [],
      spawned = [],
      makedirs = (\<lambda>p. if p = [] then Some OSError else None)\<rparr>"


text \<open>What the successive iterations of a sample run read: the fan tool works in the first,
  is missing in the second, and the stop signal arrives during the third sleep.\<close>

definition lab_tick :: tick where
  "lab_tick =
     \<lparr>cpu_times_percent = Inr \<lparr>cpu_user = ''1.5'', cpu_system = ''0.5'', cpu_idle = ''98.0''\<rparr>,
      virtual_memory = Inr \<lparr>mem_total = 16654970880, mem_used = 1, mem_free = 2, mem_shared = 3,
                              mem_buffers = 4, mem_cached = 5, mem_available = 6\<rparr>,
      ipmitool = Exited 0 (Some (''FAN1 | 4200 RPM | ok'' @ [CHR 0x0A]
                                  @ ''FAN2 | 4300 RPM | ok'' @ [CHR 0x0A]
                                  @ ''FANA | 3000 RPM | ok'' @ [CHR 0x0A])),
      sleep = None\<rparr>"


section \<open>Facts about the string operations\<close>

lemma startswith_iff: "startswith s p \<longleftrightarrow> (\<exists>post. s = p @ post)"
  by (induction s p rule: startswith.induct) auto

lemma str_contains_iff: "str_contains sub s \<longleftrightarrow> (\<exists>pre post. s = pre @ sub @ post)"
proof (induction s)
  case Nil
  then show ?case by auto
next
  case (Cons c cs)
  have "(\<exists>pre post. c # cs = pre @ sub @ post) \<longleftrightarrow>
        (\<exists>post. c # cs = sub @ post) \<or> (\<exists>pre post. cs = pre @ sub @ post)"
  proof
    assume "\<exists>pre post. c # cs = pre @ sub @ post"
    then obtain pre post where e: "c # cs = pre @ sub @ post" by blast
    show "(\<exists>post. c # cs = sub @ post) \<or> (\<exists>pre post. cs = pre @ sub @ post)"
    proof (cases pre)
      case Nil
      with e show ?thesis by auto
    next
      case (Cons a pre')
      with e have "cs = pre' @ sub @ post" by simp
      then show ?thesis by blast
    qed
  next
    assume "(\<exists>post. c # cs = sub @ post) \<or> (\<exists>pre post. cs = pre @ sub @ post)"
    then show "\<exists>pre post. c # cs = pre @ sub @ post"
    proof
      assume "\<exists>post. c # cs = sub @ post"
      then obtain post where "c # cs = [] @ sub @ post" by auto
      then show ?thesis by blast
    next
      assume "\<exists>pre post. cs = pre @ sub @ post"
      then obtain pre post where "cs = pre @ sub @ post" by blast
      then have "c # cs = (c # pre) @ sub @ post" by simp
      then show ?thesis by blast
    qed
  qed
  with Cons show ?case by (simp add: startswith_iff)
qed

lemma split_once_colon:
  "CHR '':'' \<in> set s \<Longrightarrow>
   split_once CHR '':'' s = [takeWhile (\<lambda>c. c \<noteq> CHR '':'') s, tl (dropWhile (\<lambda>c. c \<noteq> CHR '':'') s)]"
  by (induction s) auto

lemma split_once_no_colon:
  "CHR '':'' \<notin> set s \<Longrightarrow> split_once CHR '':'' s = [s]"
  by (induction s) auto

lemma marker_has_colon: "str_contains ''Model Number:'' s \<Longrightarrow> CHR '':'' \<in> set s"
  by (auto simp: str_contains_iff)

lemma scan_model_number_filter:
  "scan_model_number ls =
     Inr (case filter (str_contains ''Model Number:'') ls of
            [] \<Rightarrow> []
          | line # _ \<Rightarrow> strip (tl (dropWhile (\<lambda>c. c \<noteq> CHR '':'') line)))"
  by (induction ls) (auto simp: item_def split_once_colon marker_has_colon)

lemma scan_mn_filter:
  "scan_mn ls =
     (case filter (\<lambda>line. startswith line ''mn'') ls of
        [] \<Rightarrow> Inr []
      | line # _ \<Rightarrow>
          if CHR '':'' \<in> set line then Inr (strip (tl (dropWhile (\<lambda>c. c \<noteq> CHR '':'') line)))
          else Inl IndexError)"
  by (induction ls) (auto simp: item_def split_once_colon split_once_no_colon)

lemma ata_model_eq:
  "ata_model h dev =
     (case check_output_decode (run h (hdparm_cmd dev)) of
        Inl e \<Rightarrow> Inl e
      | Inr out \<Rightarrow> Inr (model_number_of out))"
  by (simp add: ata_model_def model_number_of_def scan_model_number_filter split: sum.splits)

lemma nvme_model_ok:
  "check_output_decode (run h (nvme_id_cmd dev)) = Inr out \<Longrightarrow>
   (case nvme_model h dev of Inl e \<Rightarrow> [] | Inr m \<Rightarrow> m) = mn_of out"
  by (simp add: nvme_model_def mn_of_def scan_mn_filter split: list.splits)

lemma nvme_model_fails:
  "check_output_decode (run h (nvme_id_cmd dev)) = Inl e \<Longrightarrow> nvme_model h dev = Inl e"
  by (simp add: nvme_model_def)

text \<open>
  The recursive definitions agree with the usual reading of \<^verbatim>\<open>split\<close>: the parts of
  \<^verbatim>\<open>s.split(sep)\<close> hold no separator and a string is cut at each one; \<^verbatim>\<open>s.split()\<close> skips
  white space, takes the run of other characters, and goes on behind it.
\<close>

lemma split_on_parts:
  "split_on sep s \<noteq> [] \<and> (\<forall>p \<in> set (split_on sep s). sep \<notin> set p)"
  by (induction s) (auto split: list.splits)

lemma split_on_two:
  "sep \<notin> set a \<Longrightarrow> split_on sep (a @ sep # b) = a # split_on sep b"
  by (induction a) (auto split: list.splits)

lemma split_on_one:
  "sep \<notin> set a \<Longrightarrow> split_on sep a = [a]"
  by (induction a) (auto split: list.splits)

lemma split_ws_unfold:
  "split_ws s =
     (let t = dropWhile isspace s
      in if t = [] then []
         else takeWhile (\<lambda>c. \<not> isspace c) t # split_ws (dropWhile (\<lambda>c. \<not> isspace c) t))"
proof (induction s)
  case Nil
  then show ?case by simp
next
  case (Cons c cs)
  show ?case
  proof (cases "isspace c")
    case True
    with Cons show ?thesis by simp
  next
    case False
    show ?thesis
    proof (cases cs)
      case Nil
      with False show ?thesis by simp
    next
      case ds: (Cons d ds)
      show ?thesis
      proof (cases "isspace d")
        case True
        with False ds show ?thesis by simp
      next
        case nd: False
        have "split_ws cs = takeWhile (\<lambda>c. \<not> isspace c) cs # split_ws (dropWhile (\<lambda>c. \<not> isspace c) cs)"
          using Cons.IH ds nd by (simp add: Let_def)
        with False ds nd show ?thesis by (simp add: Let_def)
      qed
    qed
  qed
qed

section \<open>Facts about the example host\<close>

lemma lab_size: "st_size lab_host d = Inr 5368709127"
  by (simp add: lab_host_def)

lemma lab_mounts: "proc_mounts lab_host = Inr [''/dev/sda1 / ext4 rw,relatime 0 0'' @ [CHR 0x0A]]"
  by (simp add: lab_host_def)

lemma lab_exists:
  "path_exists lab_host d \<longleftrightarrow> d \<in> set [''/dev/sda'', ''/dev/sdb'', ''/dev/nvme0n1'', ''/etc/hostname'']"
  by (simp add: lab_host_def)

lemma lab_isblock:
  "os_path_isblock lab_host = Some (\<lambda>p. p \<in> set [''/dev/sda'', ''/dev/sdb'', ''/dev/nvme0n1''])"
  by (simp add: lab_host_def)

lemma lab_run:
  "run lab_host [''hdparm'', ''-I'', ''/dev/sda''] =
     Exited 0 (Some (''/dev/sda:'' @ [CHR 0x0A] @ '' Model Number:  WDC WD10EZEX  '' @ [CHR 0x0A]))"
  "run lab_host [''hdparm'', ''-I'', ''/dev/nvme0n1''] = Fault OSError"
  "run lab_host [''nvme'', ''id-ctrl'', ''/dev/nvme0n1''] =
     Exited 0 (Some (''vid : 0x144d'' @ [CHR 0x0A] @ ''mn : Samsung SSD 980 '' @ [CHR 0x0A]))"
  "run lab_host [''hdparm'', ''-I'', ''/dev/sdb''] = Fault OSError"
  "run lab_host [''smartctl'', ''-H'', ''/dev/sda''] = Exited 1 (Some [])"
  "run lab_host [''nvme'', ''smart-log'', ''/dev/nvme0n1''] = Exited 0 (Some [])"
  by (simp_all add: lab_host_def)

lemma lab_sda:
  "get_disk_info lab_host ''/dev/sda'' =
     Inr (Some \<lparr>size = 5, mounted = True, model = ''WDC WD10EZEX'', device = ''/dev/sda''\<rparr>)"
  by (simp add: lab_host_def get_disk_info_def disk_info_body_def read_model_def ata_model_def
      hdparm_cmd_def check_output_decode_def item_def strip_def isspace_def)

lemma lab_nvme:
  "get_disk_info lab_host ''/dev/nvme0n1'' =
     Inr (Some \<lparr>size = 5, mounted = False, model = ''Samsung SSD 980'', device = ''/dev/nvme0n1''\<rparr>)"
  by (simp add: lab_host_def get_disk_info_def disk_info_body_def read_model_def ata_model_def
      nvme_model_def nvme_id_cmd_def
      hdparm_cmd_def check_output_decode_def item_def strip_def isspace_def)

lemma lab_sdb:
  "get_disk_info lab_host ''/dev/sdb'' =
     Inr (Some \<lparr>size = 5, mounted = False, model = [], device = ''/dev/sdb''\<rparr>)"
  by (simp add: lab_host_def get_disk_info_def disk_info_body_def read_model_def ata_model_def
      nvme_model_def nvme_id_cmd_def
      hdparm_cmd_def check_output_decode_def item_def strip_def isspace_def)

section \<open>\<^verbatim>\<open>get_disk_info\<close>: the guard and the swallowed faults\<close>

text \<open>
  A path that does not exist gives \<^verbatim>\<open>None\<close> on every host. For a path that exists the
  answer depends on the attribute \<^verbatim>\<open>os.path.isblock\<close>: where it is missing the method
  raises \<^verbatim>\<open>AttributeError\<close>, before the \<^verbatim>\<open>try\<close> is entered; where it is present the
  method never raises.
\<close>

lemma get_disk_info_absent_path:
  "\<not> path_exists h dev \<Longrightarrow> get_disk_info h dev = Inr None"
  by (simp add: get_disk_info_def)

lemma get_disk_info_not_block:
  "os_path_isblock h = Some isblock \<Longrightarrow> \<not> isblock dev \<Longrightarrow> get_disk_info h dev = Inr None"
  by (simp add: get_disk_info_def)

lemma get_disk_info_no_isblock:
  "path_exists h dev \<Longrightarrow> os_path_isblock h = None \<Longrightarrow> get_disk_info h dev = Inl AttributeError"
  by (simp add: get_disk_info_def)

lemma get_disk_info_with_isblock:
  "os_path_isblock h = Some isblock \<Longrightarrow> \<exists>r. get_disk_info h dev = Inr r"
  by (simp add: get_disk_info_def split: sum.splits)

lemma get_disk_info_Some:
  "get_disk_info h dev = Inr (Some info) \<longleftrightarrow>
     path_exists h dev \<and> (\<exists>isblock. os_path_isblock h = Some isblock \<and> isblock dev)
     \<and> disk_info_body h dev = Inr info"
  by (auto simp: get_disk_info_def split: option.splits sum.splits if_splits)

text \<open>
  C1. For every path that does not exist or is not a block special file,
  \<^verbatim>\<open>get_disk_info\<close> returns \<^verbatim>\<open>None\<close> and not an error. The code does so for a path that does
  not exist (\<open>get_disk_info_absent_path\<close>). For the regular file \<^verbatim>\<open>/etc/hostname\<close>, which
  exists and is not a block special file, on a host with CPython's \<^verbatim>\<open>os.path\<close>, the
  method raises \<^verbatim>\<open>AttributeError\<close>.
\<close>

theorem get_disk_info_regular_file_raises:
  "get_disk_info stock_host ''/etc/hostname'' = Inl AttributeError"
  by (simp add: get_disk_info_def stock_host_def lab_host_def)

text \<open>
  C2. Any fault inside \<^verbatim>\<open>get_disk_info\<close> collapses to \<^verbatim>\<open>None\<close>; the method never passes
  an error to its caller. The test of line 25 stands outside the \<^verbatim>\<open>try\<close>: for the
  existing disk \<^verbatim>\<open>/dev/sda\<close>, on a host with CPython's \<^verbatim>\<open>os.path\<close>, the fault of that line
  reaches the caller.
\<close>

theorem get_disk_info_fault_propagates:
  "path_exists stock_host ''/dev/sda'' \<and> (\<exists>e. get_disk_info stock_host ''/dev/sda'' = Inl e)"
  by (simp add: get_disk_info_def stock_host_def lab_host_def)

section \<open>\<^verbatim>\<open>get_disk_info\<close>: what lines 29 to 62 compute\<close>

text \<open>
  The lemmas of this section are about calls that get past the guard of line 25. That
  takes a host on which a function has been installed as \<^verbatim>\<open>os.path.isblock\<close>; with
  CPython's \<^verbatim>\<open>os.path\<close> no call returns a result (\<open>get_disk_info_no_result\<close>). They say
  what the body of the \<^verbatim>\<open>try\<close> computes, and are evaluated on \<open>lab_host\<close>.

  The \<^verbatim>\<open>size\<close> of a result is the byte size that \<^verbatim>\<open>os.stat\<close> reported, floor-divided by
  \<open>2 ^ 30\<close>.
\<close>

lemma get_disk_info_no_result:
  "os_path_isblock h = None \<Longrightarrow> get_disk_info h dev \<noteq> Inr (Some info)"
  by (simp add: get_disk_info_def)

lemma size_behind_guard:
  assumes "get_disk_info h dev = Inr (Some info)"
  shows "\<exists>n. st_size h dev = Inr n \<and> device_info.size info = n div 2 ^ 30
           \<and> device_info.size info * 2 ^ 30 \<le> n \<and> n < (device_info.size info + 1) * 2 ^ 30"
proof -
  from assms have b: "disk_info_body h dev = Inr info"
    by (simp add: get_disk_info_Some)
  then obtain n where n: "st_size h dev = Inr n"
    by (cases "st_size h dev") (simp_all add: disk_info_body_def)
  with b have s: "device_info.size info = n div 2 ^ 30"
    by (auto simp: disk_info_body_def Let_def split: sum.splits)
  have "(n div 2 ^ 30) * 2 ^ 30 \<le> n" and "n < (n div 2 ^ 30 + 1) * 2 ^ 30"
    by (simp_all add: div_mult_self4 field_simps) 
  with n s show ?thesis by simp
qed

lemma size_on_lab_host:
  "get_disk_info lab_host ''/dev/sda'' =
     Inr (Some \<lparr>size = 5, mounted = True, model = ''WDC WD10EZEX'', device = ''/dev/sda''\<rparr>)
   \<and> st_size lab_host ''/dev/sda'' = Inr 5368709127
   \<and> (5368709127 :: int) div 2 ^ 30 = 5"
  using size_behind_guard [OF lab_sda] lab_sda by (simp add: lab_size)

text \<open>
  The \<^verbatim>\<open>mounted\<close> of a result is true if and only if the device path occurs as a substring
  of some line of the mount table; on \<open>lab_host\<close> the parent disk \<^verbatim>\<open>/dev/sda\<close> counts as
  mounted by the table line of its partition \<^verbatim>\<open>/dev/sda1\<close>.
\<close>

lemma mounted_behind_guard:
  assumes "get_disk_info h dev = Inr (Some info)"
  shows "\<exists>lines. proc_mounts h = Inr lines
           \<and> (mounted info \<longleftrightarrow> (\<exists>line \<in> set lines. \<exists>pre post. line = pre @ dev @ post))"
proof -
  from assms have b: "disk_info_body h dev = Inr info"
    by (simp add: get_disk_info_Some)
  then obtain n where n: "st_size h dev = Inr n"
    by (cases "st_size h dev") (simp_all add: disk_info_body_def)
  with b obtain ls where ls: "proc_mounts h = Inr ls"
    by (cases "proc_mounts h") (simp_all add: disk_info_body_def)
  with b n have "mounted info = list_ex (str_contains dev) ls"
    by (auto simp: disk_info_body_def Let_def)
  then have "mounted info \<longleftrightarrow> (\<exists>line \<in> set ls. \<exists>pre post. line = pre @ dev @ post)"
    by (simp add: list_ex_iff str_contains_iff)
  with ls show ?thesis by simp
qed

lemma mounted_on_lab_host:
  "get_disk_info lab_host ''/dev/sda'' =
     Inr (Some \<lparr>size = 5, mounted = True, model = ''WDC WD10EZEX'', device = ''/dev/sda''\<rparr>)
   \<and> proc_mounts lab_host = Inr [''/dev/sda1 / ext4 rw,relatime 0 0'' @ [CHR 0x0A]]
   \<and> (\<exists>line \<in> set [''/dev/sda1 / ext4 rw,relatime 0 0'' @ [CHR 0x0A]].
         \<exists>pre post. line = pre @ ''/dev/sda'' @ post)"
  using mounted_behind_guard [OF lab_sda] lab_sda by (simp add: lab_mounts)

lemma read_model_ata_ok:
  "check_output_decode (run h (hdparm_cmd dev)) = Inr out \<Longrightarrow>
   read_model h dev = ([hdparm_cmd dev], model_number_of out)"
  by (simp add: read_model_def ata_model_eq)

lemma read_model_ata_fails:
  "check_output_decode (run h (hdparm_cmd dev)) = Inl e \<Longrightarrow>
   read_model h dev =
     (if startswith dev ''/dev/nvme''
      then ([hdparm_cmd dev, nvme_id_cmd dev], (case nvme_model h dev of Inl e \<Rightarrow> [] | Inr m \<Rightarrow> m))
      else ([hdparm_cmd dev], []))"
  by (simp add: read_model_def ata_model_eq split: sum.splits)

lemma cmds_differ: "nvme_id_cmd dev \<noteq> hdparm_cmd dev"
  by (simp add: nvme_id_cmd_def hdparm_cmd_def)

text \<open>
  Where the guard passes and the size and the mount table are read, a result is returned
  and its \<^verbatim>\<open>model\<close> is resolved as follows.
  \<^item> When the \<^verbatim>\<open>hdparm\<close> invocation succeeds, \<^verbatim>\<open>model\<close> is taken from its
    \<^verbatim>\<open>Model Number:\<close> line (empty without such a line) and no other tool is run.
  \<^item> The \<^verbatim>\<open>nvme id-ctrl\<close> fallback runs exactly when the \<^verbatim>\<open>hdparm\<close> invocation fails and
    the path starts with \<^verbatim>\<open>/dev/nvme\<close>; when it succeeds, \<^verbatim>\<open>model\<close> is taken from the first
    line that begins with \<^verbatim>\<open>mn\<close>.
  \<^item> When both attempts fail, or the first fails and the path is not an NVMe one,
    \<^verbatim>\<open>model\<close> is the empty string.
\<close>

lemma model_behind_guard:
  assumes "path_exists h dev" and "os_path_isblock h = Some isblock" and "isblock dev"
    and "st_size h dev = Inr n" and "proc_mounts h = Inr table"
  shows "\<exists>info. get_disk_info h dev = Inr (Some info)
    \<and> (\<forall>out. check_output_decode (run h (hdparm_cmd dev)) = Inr out \<longrightarrow>
          model info = model_number_of out \<and> fst (read_model h dev) = [hdparm_cmd dev])
    \<and> (nvme_id_cmd dev \<in> set (fst (read_model h dev)) \<longleftrightarrow>
          (\<exists>e. check_output_decode (run h (hdparm_cmd dev)) = Inl e) \<and> startswith dev ''/dev/nvme'')
    \<and> (\<forall>out. (\<exists>e. check_output_decode (run h (hdparm_cmd dev)) = Inl e)
             \<and> startswith dev ''/dev/nvme''
             \<and> check_output_decode (run h (nvme_id_cmd dev)) = Inr out \<longrightarrow>
          model info = mn_of out)
    \<and> ((\<exists>e. check_output_decode (run h (hdparm_cmd dev)) = Inl e)
         \<and> (startswith dev ''/dev/nvme'' \<longrightarrow>
              (\<exists>e. check_output_decode (run h (nvme_id_cmd dev)) = Inl e)) \<longrightarrow>
          model info = [])"
proof -
  define info where
    "info = \<lparr>size = n div 1024 ^ 3, mounted = list_ex (str_contains dev) table,
             model = snd (read_model h dev), device = dev\<rparr>"
  have body: "disk_info_body h dev = Inr info"
    using assms(4,5) by (simp add: disk_info_body_def info_def)
  have res: "get_disk_info h dev = Inr (Some info)"
    using assms(1,2,3) body by (simp add: get_disk_info_Some)
  have m: "model info = snd (read_model h dev)"
    by (simp add: info_def)
  have a: "\<forall>out. check_output_decode (run h (hdparm_cmd dev)) = Inr out \<longrightarrow>
          model info = model_number_of out \<and> fst (read_model h dev) = [hdparm_cmd dev]"
    by (simp add: m read_model_ata_ok)
  have b: "nvme_id_cmd dev \<in> set (fst (read_model h dev)) \<longleftrightarrow>
          (\<exists>e. check_output_decode (run h (hdparm_cmd dev)) = Inl e) \<and> startswith dev ''/dev/nvme''"
  proof (cases "check_output_decode (run h (hdparm_cmd dev))")
    case (Inl e)
    then show ?thesis by (simp add: read_model_ata_fails cmds_differ)
  next
    case (Inr out)
    then show ?thesis by (simp add: read_model_ata_ok cmds_differ)
  qed
  have c: "\<forall>out. (\<exists>e. check_output_decode (run h (hdparm_cmd dev)) = Inl e)
             \<and> startswith dev ''/dev/nvme''
             \<and> check_output_decode (run h (nvme_id_cmd dev)) = Inr out \<longrightarrow>
          model info = mn_of out"
    by (auto simp: m read_model_ata_fails nvme_model_ok)
  have d: "(\<exists>e. check_output_decode (run h (hdparm_cmd dev)) = Inl e)
         \<and> (startswith dev ''/dev/nvme'' \<longrightarrow>
              (\<exists>e. check_output_decode (run h (nvme_id_cmd dev)) = Inl e)) \<longrightarrow>
          model info = []"
    by (auto simp: m read_model_ata_fails nvme_model_fails)
  from res a b c d show ?thesis by blast
qed

lemma model_on_lab_host:
  "(\<exists>info. get_disk_info lab_host ''/dev/sda'' = Inr (Some info) \<and> model info = ''WDC WD10EZEX''
      \<and> fst (read_model lab_host ''/dev/sda'') = [[''hdparm'', ''-I'', ''/dev/sda'']])
   \<and> (\<exists>info. get_disk_info lab_host ''/dev/nvme0n1'' = Inr (Some info)
      \<and> model info = ''Samsung SSD 980''
      \<and> [''nvme'', ''id-ctrl'', ''/dev/nvme0n1''] \<in> set (fst (read_model lab_host ''/dev/nvme0n1'')))
   \<and> (\<exists>info. get_disk_info lab_host ''/dev/sdb'' = Inr (Some info) \<and> model info = []
      \<and> [''nvme'', ''id-ctrl'', ''/dev/sdb''] \<notin> set (fst (read_model lab_host ''/dev/sdb'')))"
proof -
  have 1: "check_output_decode (run lab_host (hdparm_cmd ''/dev/sda'')) =
             Inr (''/dev/sda:'' @ [CHR 0x0A] @ '' Model Number:  WDC WD10EZEX  '' @ [CHR 0x0A])"
    by (simp add: lab_run hdparm_cmd_def check_output_decode_def)
  have 2: "model_number_of (''/dev/sda:'' @ [CHR 0x0A] @ '' Model Number:  WDC WD10EZEX  '' @ [CHR 0x0A])
             = ''WDC WD10EZEX''"
    by (simp add: model_number_of_def strip_def isspace_def)
  have 3: "check_output_decode (run lab_host (hdparm_cmd ''/dev/nvme0n1'')) = Inl OSError"
    "check_output_decode (run lab_host (nvme_id_cmd ''/dev/nvme0n1'')) =
       Inr (''vid : 0x144d'' @ [CHR 0x0A] @ ''mn : Samsung SSD 980 '' @ [CHR 0x0A])"
    "startswith ''/dev/nvme0n1'' ''/dev/nvme''"
    by (simp_all add: lab_run hdparm_cmd_def nvme_id_cmd_def check_output_decode_def)
  have 4: "mn_of (''vid : 0x144d'' @ [CHR 0x0A] @ ''mn : Samsung SSD 980 '' @ [CHR 0x0A]) = ''Samsung SSD 980''"
    by (simp add: mn_of_def strip_def isspace_def)
  have 5: "check_output_decode (run lab_host (hdparm_cmd ''/dev/sdb'')) = Inl OSError"
    "\<not> startswith ''/dev/sdb'' ''/dev/nvme''"
    by (simp_all add: lab_run hdparm_cmd_def check_output_decode_def)
  have a: "\<exists>info. get_disk_info lab_host ''/dev/sda'' = Inr (Some info) \<and> model info = ''WDC WD10EZEX''
      \<and> fst (read_model lab_host ''/dev/sda'') = [[''hdparm'', ''-I'', ''/dev/sda'']]"
    using model_behind_guard [OF _ lab_isblock _ lab_size lab_mounts, of "''/dev/sda''"] 1 2
    by (auto simp: lab_exists hdparm_cmd_def)
  have b: "\<exists>info. get_disk_info lab_host ''/dev/nvme0n1'' = Inr (Some info)
      \<and> model info = ''Samsung SSD 980''
      \<and> [''nvme'', ''id-ctrl'', ''/dev/nvme0n1''] \<in> set (fst (read_model lab_host ''/dev/nvme0n1''))"
    using model_behind_guard [OF _ lab_isblock _ lab_size lab_mounts, of "''/dev/nvme0n1''"] 3 4
    by (auto simp: lab_exists nvme_id_cmd_def)
  have c: "\<exists>info. get_disk_info lab_host ''/dev/sdb'' = Inr (Some info) \<and> model info = []
      \<and> [''nvme'', ''id-ctrl'', ''/dev/sdb''] \<notin> set (fst (read_model lab_host ''/dev/sdb''))"
    using model_behind_guard [OF _ lab_isblock _ lab_size lab_mounts, of "''/dev/sdb''"] 5
    by (auto simp: lab_exists nvme_id_cmd_def)
  from a b c show ?thesis by blast
qed

section \<open>\<^verbatim>\<open>get_disk_info\<close>: the fields of the result on CPython\<close>

text \<open>
  On \<open>stock_host\<close>, the host with CPython's \<^verbatim>\<open>os.path\<close>, the three disks exist, and for
  each of them line 25 raises \<^verbatim>\<open>AttributeError\<close> before a field is computed.
\<close>

lemma stock_host_raises:
  "d \<in> set [''/dev/sda'', ''/dev/sdb'', ''/dev/nvme0n1''] \<Longrightarrow>
   get_disk_info stock_host d = Inl AttributeError"
  by (rule get_disk_info_no_isblock) (auto simp: stock_host_def lab_host_def)

text \<open>
  C7. The \<^verbatim>\<open>size\<close> returned by \<^verbatim>\<open>get_disk_info\<close> is the reported byte size floor-divided by
  \<open>2 ^ 30\<close>. For the disk \<^verbatim>\<open>/dev/sda\<close> with a reported size of 5368709127 bytes the
  claim asks for a result of size 5; the method returns no result and raises
  \<^verbatim>\<open>AttributeError\<close>.
\<close>

theorem get_disk_info_size_raises:
  "path_exists stock_host ''/dev/sda''
   \<and> st_size stock_host ''/dev/sda'' = Inr 5368709127
   \<and> (5368709127 :: int) div 2 ^ 30 = 5
   \<and> get_disk_info stock_host ''/dev/sda'' = Inl AttributeError"
  by (simp add: stock_host_raises) (simp add: stock_host_def lab_host_def)

text \<open>
  C6. \<^verbatim>\<open>mounted\<close> is true if and only if the device path occurs as a substring of some line
  of the mount table; a line for \<^verbatim>\<open>/dev/sda1\<close> makes it true for \<^verbatim>\<open>/dev/sda\<close>. With that
  line in the table, the method returns no result for \<^verbatim>\<open>/dev/sda\<close> and raises
  \<^verbatim>\<open>AttributeError\<close>.
\<close>

theorem get_disk_info_mounted_raises:
  "path_exists stock_host ''/dev/sda''
   \<and> proc_mounts stock_host = Inr [''/dev/sda1 / ext4 rw,relatime 0 0'' @ [CHR 0x0A]]
   \<and> str_contains ''/dev/sda'' (''/dev/sda1 / ext4 rw,relatime 0 0'' @ [CHR 0x0A])
   \<and> get_disk_info stock_host ''/dev/sda'' = Inl AttributeError"
  by (simp add: stock_host_raises) (simp add: stock_host_def lab_host_def)

text \<open>
  C5. The \<^verbatim>\<open>model\<close> is taken from the \<^verbatim>\<open>Model Number:\<close> line of \<^verbatim>\<open>hdparm\<close> whenever that
  invocation succeeds, and it is the empty string, with no error raised, when both
  attempts fail.
  \<^item> For \<^verbatim>\<open>/dev/sda\<close> the \<^verbatim>\<open>hdparm\<close> invocation succeeds and its output has the model
    \<^verbatim>\<open>WDC WD10EZEX\<close>; the method returns no result and raises \<^verbatim>\<open>AttributeError\<close>.
  \<^item> For \<^verbatim>\<open>/dev/sdb\<close> the \<^verbatim>\<open>hdparm\<close> invocation fails and the path is not an NVMe one; the
    method raises \<^verbatim>\<open>AttributeError\<close>, where the claim says no error is raised.
\<close>

theorem get_disk_info_model_raises:
  "check_output_decode (run stock_host (hdparm_cmd ''/dev/sda'')) =
     Inr (''/dev/sda:'' @ [CHR 0x0A] @ '' Model Number:  WDC WD10EZEX  '' @ [CHR 0x0A])
   \<and> model_number_of (''/dev/sda:'' @ [CHR 0x0A] @ '' Model Number:  WDC WD10EZEX  '' @ [CHR 0x0A])
       = ''WDC WD10EZEX''
   \<and> get_disk_info stock_host ''/dev/sda'' = Inl AttributeError
   \<and> check_output_decode (run stock_host (hdparm_cmd ''/dev/sdb'')) = Inl OSError
   \<and> startswith ''/dev/sdb'' ''/dev/nvme'' = False
   \<and> get_disk_info stock_host ''/dev/sdb'' = Inl AttributeError"
proof -
  have r: "run stock_host = run lab_host"
    by (simp add: stock_host_def)
  have m: "model_number_of (''/dev/sda:'' @ [CHR 0x0A] @ '' Model Number:  WDC WD10EZEX  '' @ [CHR 0x0A])
             = ''WDC WD10EZEX''"
    by (simp add: model_number_of_def strip_def isspace_def)
  have a: "check_output_decode (run stock_host (hdparm_cmd ''/dev/sda'')) =
     Inr (''/dev/sda:'' @ [CHR 0x0A] @ '' Model Number:  WDC WD10EZEX  '' @ [CHR 0x0A])"
    "check_output_decode (run stock_host (hdparm_cmd ''/dev/sdb'')) = Inl OSError"
    by (simp_all add: r lab_run hdparm_cmd_def check_output_decode_def)
  have s: "startswith ''/dev/sdb'' ''/dev/nvme'' = False"
    by simp
  have g: "get_disk_info stock_host ''/dev/sda'' = Inl AttributeError"
    "get_disk_info stock_host ''/dev/sdb'' = Inl AttributeError"
    by (simp_all add: stock_host_raises)
  from a m s g show ?thesis by blast
qed

section \<open>\<^verbatim>\<open>check_disk_health\<close>\<close>

lemma lab_world_fields:
  "reads lab_world = 0" "console lab_world = []" "logfile lab_world = []"
  "spawned lab_world = []" "ops lab_world = []"
  "clock lab_world 0 = ''2024-05-01 12:00:00''"
  "clock lab_world (Suc 0) = ''2024-05-01 12:00:01''"
  by (simp_all add: lab_world_def)

text \<open>
  C3. \<^verbatim>\<open>check_disk_health\<close> runs \<^verbatim>\<open>nvme smart-log\<close> exactly when \<^verbatim>\<open>nvme\<close> occurs as a
  substring of the device path and \<^verbatim>\<open>smartctl -H\<close> otherwise, and runs nothing else; what
  the host says about the path (whether it exists, whether it is a block device) plays no
  part. It returns \<^verbatim>\<open>True\<close> exactly when the tool exits with status zero, and then logs
  only its INFO line. On a non-zero exit it logs the ERROR line
  \<^verbatim>\<open>Failed to get health status for\<close> followed by the path, and returns \<^verbatim>\<open>False\<close>.
\<close>

theorem check_disk_health_dispatch:
  assumes "check_disk_health h dev w = (r, w')"
    and "cmd = (if \<exists>pre post. dev = pre @ ''nvme'' @ post
                then [''nvme'', ''smart-log'', dev] else [''smartctl'', ''-H'', dev])"
    and "info_line = ''['' @ clock w (reads w) @ ''] [INFO] Checking health of '' @ dev"
    and "error_line = ''['' @ clock w (Suc (reads w)) @ ''] [ERROR] Failed to get health status for '' @ dev"
  shows "spawned w' = spawned w @ [cmd]
    \<and> (r = Inr True \<longleftrightarrow> (\<exists>out. run h cmd = Exited 0 out))
    \<and> ((\<exists>out. run h cmd = Exited 0 out) \<longrightarrow>
          console w' = console w @ [info_line]
          \<and> logfile w' = logfile w @ [info_line @ [CHR 0x0A]])
    \<and> (\<forall>rc out. run h cmd = Exited rc out \<and> rc \<noteq> 0 \<longrightarrow>
          r = Inr False
          \<and> console w' = console w @ [info_line, error_line]
          \<and> logfile w' = logfile w @ [info_line @ [CHR 0x0A], error_line @ [CHR 0x0A]])
    \<and> (\<forall>pe ib. check_disk_health (h\<lparr>path_exists := pe, os_path_isblock := ib\<rparr>) dev w = (r, w'))"
proof -
  have c: "cmd = (if str_contains ''nvme'' dev
                 then [''nvme'', ''smart-log'', dev] else [''smartctl'', ''-H'', dev])"
    using assms(2) by (simp only: str_contains_iff)
  show ?thesis
  proof (cases "run h cmd")
    case (Fault e)
    with assms(1) c show ?thesis
      by (auto simp: check_disk_health_def Let_def check_call_def spawn_def log_def
          strftime_now_def split: if_splits)
  next
    case (Exited rc out)
    with assms(1,3,4) c show ?thesis
      by (auto simp: check_disk_health_def Let_def check_call_def spawn_def log_def
          strftime_now_def split: if_splits)
  qed
qed


theorem check_disk_health_dispatch_witness:
  "check_disk_health lab_host ''/dev/sda'' lab_world =
     (Inr False, snd (check_disk_health lab_host ''/dev/sda'' lab_world))
   \<and> spawned (snd (check_disk_health lab_host ''/dev/sda'' lab_world)) = [[''smartctl'', ''-H'', ''/dev/sda'']]
   \<and> logfile (snd (check_disk_health lab_host ''/dev/sda'' lab_world)) =
       [''[2024-05-01 12:00:00] [INFO] Checking health of /dev/sda'' @ [CHR 0x0A],
        ''[2024-05-01 12:00:01] [ERROR] Failed to get health status for /dev/sda'' @ [CHR 0x0A]]
   \<and> check_disk_health lab_host ''/dev/nvme0n1'' lab_world =
     (Inr True, snd (check_disk_health lab_host ''/dev/nvme0n1'' lab_world))
   \<and> spawned (snd (check_disk_health lab_host ''/dev/nvme0n1'' lab_world)) =
       [[''nvme'', ''smart-log'', ''/dev/nvme0n1'']]
   \<and> logfile (snd (check_disk_health lab_host ''/dev/nvme0n1'' lab_world)) =
       [''[2024-05-01 12:00:00] [INFO] Checking health of /dev/nvme0n1'' @ [CHR 0x0A]]"
proof -
  have n1: "\<not> (\<exists>pre post. ''/dev/sda'' = pre @ ''nvme'' @ post)"
    unfolding str_contains_iff [symmetric] by simp
  have n2: "\<exists>pre post. ''/dev/nvme0n1'' = pre @ ''nvme'' @ post"
    unfolding str_contains_iff [symmetric] by simp
  have a: "fst (check_disk_health lab_host ''/dev/sda'' lab_world) = Inr False
    \<and> spawned (snd (check_disk_health lab_host ''/dev/sda'' lab_world)) = [[''smartctl'', ''-H'', ''/dev/sda'']]
    \<and> logfile (snd (check_disk_health lab_host ''/dev/sda'' lab_world)) =
       [''[2024-05-01 12:00:00] [INFO] Checking health of /dev/sda'' @ [CHR 0x0A],
        ''[2024-05-01 12:00:01] [ERROR] Failed to get health status for /dev/sda'' @ [CHR 0x0A]]"
    using check_disk_health_dispatch [OF prod.collapse [symmetric] refl refl refl,
        of lab_host "''/dev/sda''" lab_world] n1
    by (simp add: lab_run lab_world_fields)
  have b: "fst (check_disk_health lab_host ''/dev/nvme0n1'' lab_world) = Inr True
    \<and> spawned (snd (check_disk_health lab_host ''/dev/nvme0n1'' lab_world)) =
       [[''nvme'', ''smart-log'', ''/dev/nvme0n1'']]
    \<and> logfile (snd (check_disk_health lab_host ''/dev/nvme0n1'' lab_world)) =
       [''[2024-05-01 12:00:00] [INFO] Checking health of /dev/nvme0n1'' @ [CHR 0x0A]]"
    using check_disk_health_dispatch [OF prod.collapse [symmetric] refl refl refl,
        of lab_host "''/dev/nvme0n1''" lab_world] n2
    by (simp add: lab_run lab_world_fields)
  from a b show ?thesis by (metis prod.collapse)
qed

section \<open>\<^verbatim>\<open>monitor_system\<close>: the effect of the primitives\<close>

lemma csv_paths_differ:
  "path_join d ''cpu.csv'' \<noteq> path_join d ''fan.csv''"
  "path_join d ''cpu.csv'' \<noteq> path_join d ''mem.csv''"
  "path_join d ''fan.csv'' \<noteq> path_join d ''mem.csv''"
  "path_join d ''fan.csv'' \<noteq> path_join d ''cpu.csv''"
  "path_join d ''mem.csv'' \<noteq> path_join d ''cpu.csv''"
  "path_join d ''mem.csv'' \<noteq> path_join d ''fan.csv''"
  by (simp_all add: path_join_def)

lemma log_fields:
  "files (log level message w) = files w"
  "ops (log level message w) = ops w"
  "spawned (log level message w) = spawned w"
  "clock (log level message w) = clock w"
  "mb_text (log level message w) = mb_text w"
  "reads (log level message w) = Suc (reads w)"
  "console (log level message w) = console w @ [''['' @ clock w (reads w) @ ''] ['' @ level @ ''] '' @ message]"
  "logfile (log level message w) =
     logfile w @ [''['' @ clock w (reads w) @ ''] ['' @ level @ ''] '' @ message @ [CHR 0x0A]]"
  by (simp_all add: log_def strftime_now_def)

lemma log_update:
  "log level message w =
     w\<lparr>reads := Suc (reads w),
       console := console w @ [''['' @ clock w (reads w) @ ''] ['' @ level @ ''] '' @ message],
       logfile := logfile w @ [''['' @ clock w (reads w) @ ''] ['' @ level @ ''] '' @ message @ [CHR 0x0A]]\<rparr>"
  by (simp add: log_def strftime_now_def)

lemma append_file_fields:
  "files (append_file p text w) =
     (files w)(p \<mapsto> (case files w p of None \<Rightarrow> text | Some old \<Rightarrow> old @ text))"
  "ops (append_file p text w) = ops w @ [Append_write p text]"
  "spawned (append_file p text w) = spawned w"
  "clock (append_file p text w) = clock w"
  "mb_text (append_file p text w) = mb_text w"
  "reads (append_file p text w) = reads w"
  "console (append_file p text w) = console w"
  "logfile (append_file p text w) = logfile w"
  by (simp_all add: append_file_def)

lemma write_file_fields:
  "files (write_file p text w) = (files w)(p \<mapsto> text)"
  "ops (write_file p text w) = ops w @ [Truncate_write p text]"
  "spawned (write_file p text w) = spawned w"
  "clock (write_file p text w) = clock w"
  "mb_text (write_file p text w) = mb_text w"
  "reads (write_file p text w) = reads w"
  "console (write_file p text w) = console w"
  "logfile (write_file p text w) = logfile w"
  by (simp_all add: write_file_def)

lemma spawn_fields:
  "files (spawn cmd w) = files w"
  "ops (spawn cmd w) = ops w"
  "spawned (spawn cmd w) = spawned w @ [cmd]"
  "clock (spawn cmd w) = clock w"
  "mb_text (spawn cmd w) = mb_text w"
  "reads (spawn cmd w) = reads w"
  "console (spawn cmd w) = console w"
  "logfile (spawn cmd w) = logfile w"
  by (simp_all add: spawn_def)

lemma write_headers_fields:
  "logfile (write_headers out w) = logfile w"
  "console (write_headers out w) = console w"
  "reads (write_headers out w) = reads w"
  "clock (write_headers out w) = clock w"
  "mb_text (write_headers out w) = mb_text w"
  "spawned (write_headers out w) = spawned w"
  "ops (write_headers out w) =
     ops w @ [Truncate_write (path_join out ''cpu.csv'') cpu_header,
              Truncate_write (path_join out ''fan.csv'') fan_header,
              Truncate_write (path_join out ''mem.csv'') mem_header]"
  "files (write_headers out w) (path_join out ''cpu.csv'') = Some cpu_header"
  "files (write_headers out w) (path_join out ''fan.csv'') = Some fan_header"
  "files (write_headers out w) (path_join out ''mem.csv'') = Some mem_header"
  by (simp_all add: write_headers_def write_file_fields csv_paths_differ)

lemma check_output_decode_Inr:
  "check_output_decode p = Inr text \<longleftrightarrow> p = Exited 0 (Some text)"
  by (auto simp: check_output_decode_def split: proc.splits option.splits if_splits)

lemma check_output_decode_Inl:
  "(\<exists>e. check_output_decode p = Inl e) \<longleftrightarrow>
     (\<exists>e. p = Fault e) \<or> (\<exists>rc out. p = Exited rc out \<and> rc \<noteq> 0) \<or> p = Exited 0 None"
  by (auto simp: check_output_decode_def split: proc.splits option.splits if_splits)

lemma fan_step_ok:
  "check_output_decode (ipmitool t) = Inr fan_output \<Longrightarrow>
   parse_fans (split_on CHR 0x0A fan_output) Map.empty = Inr fans \<Longrightarrow>
   fan_step out ts t w =
     append_file (path_join out ''fan.csv'') (fan_row ts fans)
       (spawn [''ipmitool'', ''sdr'', ''type'', ''fan''] w)"
  by (simp add: fan_step_def)

lemma fan_step_tool_fails:
  "check_output_decode (ipmitool t) = Inl e \<Longrightarrow>
   fan_step out ts t w =
     log ''WARNING'' ''Failed to get fan information''
       (spawn [''ipmitool'', ''sdr'', ''type'', ''fan''] w)"
  by (simp add: fan_step_def)

lemma fan_step_parse_fails:
  "check_output_decode (ipmitool t) = Inr fan_output \<Longrightarrow>
   parse_fans (split_on CHR 0x0A fan_output) Map.empty = Inl e \<Longrightarrow>
   fan_step out ts t w =
     log ''WARNING'' ''Failed to get fan information''
       (spawn [''ipmitool'', ''sdr'', ''type'', ''fan''] w)"
  by (simp add: fan_step_def)

lemma sample_once_ok:
  assumes "cpu_times_percent t = Inr c" and "virtual_memory t = Inr m"
  shows "sample_once out iv t w =
     (time_sleep iv t,
      fan_step out (clock w (reads w)) t
        (append_file (path_join out ''mem.csv'') (mem_row (mb_text w) (clock w (reads w)) m)
           (append_file (path_join out ''cpu.csv'') (cpu_row (clock w (reads w)) c)
              (w\<lparr>reads := Suc (reads w)\<rparr>))))"
  using assms by (simp add: sample_once_def strftime_now_def Let_def append_file_fields)

text \<open>A value parsed for a fan holds no white space, so a fan row is one line.\<close>

lemma split_ws_tokens: "tok \<in> set (split_ws s) \<Longrightarrow> c \<in> set tok \<Longrightarrow> \<not> isspace c"
proof (induction s arbitrary: tok)
  case Nil
  then show ?case by simp
next
  case (Cons a s)
  show ?case
  proof (cases "isspace a")
    case True
    with Cons show ?thesis by simp
  next
    case False
    show ?thesis
    proof (cases s)
      case Nil
      with Cons.prems False show ?thesis by auto
    next
      case (Cons d s')
      show ?thesis
      proof (cases "isspace d")
        case True
        with Cons.prems Cons.IH False Cons show ?thesis by auto
      next
        case dn: False
        show ?thesis
        proof (cases "split_ws s")
          case Nil
          with Cons.prems False Cons dn show ?thesis by auto
        next
          case (Cons w ws)
          with Cons.prems(1) False \<open>s = d # s'\<close> dn
          have "tok = a # w \<or> tok \<in> set ws" by auto
          then show ?thesis
          proof
            assume "tok = a # w"
            with Cons.prems(2) have "c = a \<or> c \<in> set w" by auto
            then show ?thesis
            proof
              assume "c = a" with False show ?thesis by simp
            next
              assume "c \<in> set w"
              moreover have "w \<in> set (split_ws s)" using Cons by simp
              ultimately show ?thesis using Cons.IH by blast
            qed
          next
            assume "tok \<in> set ws"
            then have "tok \<in> set (split_ws s)" using Cons by simp
            with Cons.prems(2) show ?thesis using Cons.IH by blast
          qed
        qed
      qed
    qed
  qed
qed

lemma parse_fans_values:
  "parse_fans ls fans = Inr fans' \<Longrightarrow>
   \<forall>k v. fans k = Some v \<longrightarrow> CHR 0x0A \<notin> set v \<Longrightarrow>
   fans' k = Some v \<Longrightarrow> CHR 0x0A \<notin> set v"
proof (induction ls arbitrary: fans)
  case Nil
  then show ?case by auto
next
  case (Cons line rest)
  show ?case
  proof (cases "str_contains ''FAN'' line \<and> str_contains ''RPM'' line")
    case False
    with Cons.prems(1) have "parse_fans rest fans = Inr fans'" by auto
    from Cons.IH [OF this Cons.prems(2) Cons.prems(3)] show ?thesis .
  next
    case True
    with Cons.prems(1) obtain f0 f1 rpm where
      f: "item (split_on CHR ''|'' line) 0 = Inr f0" "item (split_on CHR ''|'' line) 1 = Inr f1"
         "item (split_ws (strip f1)) 0 = Inr rpm"
         "parse_fans rest (fans(strip f0 \<mapsto> rpm)) = Inr fans'"
      by (auto simp: Let_def split: sum.splits)
    from f(3) have "rpm \<in> set (split_ws (strip f1))"
      by (auto simp: item_def split: if_splits)
    then have "\<forall>c \<in> set rpm. \<not> isspace c" using split_ws_tokens by blast
    moreover have "isspace (CHR 0x0A)" by (simp add: isspace_def)
    ultimately have "CHR 0x0A \<notin> set rpm" by blast
    with Cons.prems(2) have "\<forall>k v. (fans(strip f0 \<mapsto> rpm)) k = Some v \<longrightarrow> CHR 0x0A \<notin> set v"
      by auto
    from Cons.IH [OF f(4) this Cons.prems(3)] show ?thesis .
  qed
qed

lemma fan_row_one_line:
  assumes "parse_fans ls Map.empty = Inr fans" and "CHR 0x0A \<notin> set ts"
  shows "CHR 0x0A \<notin> set (butlast (fan_row ts fans)) \<and> last (fan_row ts fans) = CHR 0x0A"
proof -
  have v: "CHR 0x0A \<notin> set (case fans k of None \<Rightarrow> ''0'' | Some v \<Rightarrow> v)" for k
    using parse_fans_values [OF assms(1)] by (cases "fans k") auto
  show ?thesis using assms(2) v
    by (simp add: fan_row_def fan_channels_def butlast_append)
qed

section \<open>The sample run\<close>

lemma lab_tick_fields:
  "cpu_times_percent lab_tick = Inr \<lparr>cpu_user = ''1.5'', cpu_system = ''0.5'', cpu_idle = ''98.0''\<rparr>"
  "virtual_memory lab_tick = Inr \<lparr>mem_total = 16654970880, mem_used = 1, mem_free = 2, mem_shared = 3,
                              mem_buffers = 4, mem_cached = 5, mem_available = 6\<rparr>"
  "ipmitool lab_tick = Exited 0 (Some (''FAN1 | 4200 RPM | ok'' @ [CHR 0x0A]
                                  @ ''FAN2 | 4300 RPM | ok'' @ [CHR 0x0A]
                                  @ ''FANA | 3000 RPM | ok'' @ [CHR 0x0A]))"
  "sleep lab_tick = None"
  by (simp_all add: lab_tick_def)

lemma lab_parse:
  "parse_fans (split_on CHR 0x0A (''FAN1 | 4200 RPM | ok'' @ [CHR 0x0A]
                                  @ ''FAN2 | 4300 RPM | ok'' @ [CHR 0x0A]
                                  @ ''FANA | 3000 RPM | ok'' @ [CHR 0x0A])) Map.empty
    = Inr [''FAN1'' \<mapsto> ''4200'', ''FAN2'' \<mapsto> ''4300'', ''FANA'' \<mapsto> ''3000'']"
  by (simp add: item_def strip_def isspace_def)

lemma lab_world_more:
  "mb_text lab_world n = ''15883.5''"
  "files lab_world ''out/fan.csv'' = Some ''stale''"
  "makedirs lab_world ''out'' = None"
  by (simp_all add: lab_world_def)

lemma lab_world_clock: "clock lab_world n = ''2024-05-01 12:00:0'' @ [''0123456789'' ! (n mod 10)]"
  by (simp add: lab_world_def)

section \<open>\<^verbatim>\<open>monitor_system\<close>: one iteration\<close>

text \<open>
  C4. In an iteration that has read the CPU and memory figures, the CPU row and the
  memory row are appended first, whatever the fan step does then.
  \<^item> When \<^verbatim>\<open>ipmitool\<close> exits with status zero and its output decodes and parses, exactly
    one write to \<^verbatim>\<open>fan.csv\<close> follows: the time stamp and, for \<^verbatim>\<open>FAN1\<close>, \<^verbatim>\<open>FAN2\<close>, \<^verbatim>\<open>FAN3\<close>,
    \<^verbatim>\<open>FAN4\<close>, \<^verbatim>\<open>FANA\<close> in this order, a comma and the parsed value, or \<^verbatim>\<open>0\<close> for a channel
    that the output does not have, then a line feed; the row holds no other line feed
    when the time stamp holds none. Nothing is logged.
  \<^item> When the fan step fails (the tool could not be run, it exited with a non-zero
    status, its output does not decode, or parsing raised), one WARNING line is logged,
    nothing is written to \<^verbatim>\<open>fan.csv\<close>, and the CPU and memory rows stay appended.
\<close>

theorem sample_once_fan:
  assumes "cpu_times_percent t = Inr c" and "virtual_memory t = Inr m"
    and "sample_once out iv t w = (r, w')"
    and "ts = clock w (reads w)"
    and "cpu_op = Append_write (path_join out ''cpu.csv'') (cpu_row ts c)"
    and "mem_op = Append_write (path_join out ''mem.csv'') (mem_row (mb_text w) ts m)"
    and "fan_csv = path_join out ''fan.csv''"
  shows "(\<forall>text fans.
            ipmitool t = Exited 0 (Some text)
            \<and> parse_fans (split_on CHR 0x0A text) Map.empty = Inr fans \<longrightarrow>
            (let row = ts @ concat (map (\<lambda>ch. '','' @ (case fans ch of None \<Rightarrow> ''0'' | Some v \<Rightarrow> v))
                                     [''FAN1'', ''FAN2'', ''FAN3'', ''FAN4'', ''FANA''])
                          @ [CHR 0x0A]
             in ops w' = ops w @ [cpu_op, mem_op, Append_write fan_csv row]
                \<and> files w' fan_csv = Some ((case files w fan_csv of None \<Rightarrow> [] | Some old \<Rightarrow> old) @ row)
                \<and> (CHR 0x0A \<notin> set ts \<longrightarrow> CHR 0x0A \<notin> set (butlast row))
                \<and> logfile w' = logfile w \<and> console w' = console w))
    \<and> ((\<exists>e. ipmitool t = Fault e) \<or> (\<exists>rc out. ipmitool t = Exited rc out \<and> rc \<noteq> 0)
         \<or> ipmitool t = Exited 0 None
         \<or> (\<exists>text e. ipmitool t = Exited 0 (Some text)
               \<and> parse_fans (split_on CHR 0x0A text) Map.empty = Inl e) \<longrightarrow>
        ops w' = ops w @ [cpu_op, mem_op]
        \<and> files w' fan_csv = files w fan_csv
        \<and> console w' = console w @ [''['' @ clock w (Suc (reads w)) @ ''] [WARNING] Failed to get fan information'']
        \<and> logfile w' = logfile w @ [''['' @ clock w (Suc (reads w)) @ ''] [WARNING] Failed to get fan information'' @ [CHR 0x0A]])"
proof -
  define w3 where
    "w3 = append_file (path_join out ''mem.csv'') (mem_row (mb_text w) ts m)
           (append_file (path_join out ''cpu.csv'') (cpu_row ts c) (w\<lparr>reads := Suc (reads w)\<rparr>))"
  have w': "w' = fan_step out ts t w3"
    using assms(3) by (simp add: sample_once_ok [OF assms(1,2)] assms(4) w3_def)
  have o3: "ops w3 = ops w @ [cpu_op, mem_op]"
    by (simp add: w3_def append_file_fields assms(5,6))
  have f3: "files w3 fan_csv = files w fan_csv"
    by (simp add: w3_def append_file_fields assms(7) csv_paths_differ)
  have l3: "logfile w3 = logfile w" "console w3 = console w" "reads w3 = Suc (reads w)"
    "clock w3 = clock w"
    by (simp_all add: w3_def append_file_fields)
  have good: "let row = ts @ concat (map (\<lambda>ch. '','' @ (case fans ch of None \<Rightarrow> ''0'' | Some v \<Rightarrow> v))
                                     [''FAN1'', ''FAN2'', ''FAN3'', ''FAN4'', ''FANA''])
                          @ [CHR 0x0A]
             in ops w' = ops w @ [cpu_op, mem_op, Append_write fan_csv row]
                \<and> files w' fan_csv = Some ((case files w fan_csv of None \<Rightarrow> [] | Some old \<Rightarrow> old) @ row)
                \<and> (CHR 0x0A \<notin> set ts \<longrightarrow> CHR 0x0A \<notin> set (butlast row))
                \<and> logfile w' = logfile w \<and> console w' = console w"
    if a: "ipmitool t = Exited 0 (Some fan_output)"
      and b: "parse_fans (split_on CHR 0x0A fan_output) Map.empty = Inr fans" for fan_output fans
  proof -
    have d: "check_output_decode (ipmitool t) = Inr fan_output"
      using a by (simp add: check_output_decode_Inr)
    have row: "fan_row ts fans =
        ts @ concat (map (\<lambda>ch. '','' @ (case fans ch of None \<Rightarrow> ''0'' | Some v \<Rightarrow> v))
                                     [''FAN1'', ''FAN2'', ''FAN3'', ''FAN4'', ''FANA''])
                          @ [CHR 0x0A]"
      by (simp add: fan_row_def fan_channels_def)
    have e: "w' = append_file fan_csv (fan_row ts fans) (spawn [''ipmitool'', ''sdr'', ''type'', ''fan''] w3)"
      by (simp add: w' fan_step_ok [OF d b] assms(7))
    have 1: "ops w' = ops w @ [cpu_op, mem_op, Append_write fan_csv (fan_row ts fans)]"
      by (simp add: e append_file_fields spawn_fields o3)
    have 2: "files w' fan_csv =
        Some ((case files w fan_csv of None \<Rightarrow> [] | Some old \<Rightarrow> old) @ fan_row ts fans)"
      by (simp add: e append_file_fields spawn_fields f3 split: option.splits)
    have 3: "CHR 0x0A \<notin> set ts \<longrightarrow> CHR 0x0A \<notin> set (butlast (fan_row ts fans))"
      using fan_row_one_line [OF b] by blast
    have 4: "logfile w' = logfile w \<and> console w' = console w"
      by (simp add: e append_file_fields spawn_fields l3)
    from 1 2 3 4 show ?thesis unfolding Let_def row [symmetric] by blast
  qed
  have bad: "ops w' = ops w @ [cpu_op, mem_op]
        \<and> files w' fan_csv = files w fan_csv
        \<and> console w' = console w @ [''['' @ clock w (Suc (reads w)) @ ''] [WARNING] Failed to get fan information'']
        \<and> logfile w' = logfile w @ [''['' @ clock w (Suc (reads w)) @ ''] [WARNING] Failed to get fan information'' @ [CHR 0x0A]]"
    if a: "(\<exists>e. ipmitool t = Fault e) \<or> (\<exists>rc out. ipmitool t = Exited rc out \<and> rc \<noteq> 0)
         \<or> ipmitool t = Exited 0 None
         \<or> (\<exists>text e. ipmitool t = Exited 0 (Some text)
               \<and> parse_fans (split_on CHR 0x0A text) Map.empty = Inl e)"
  proof -
    have "(\<exists>e. check_output_decode (ipmitool t) = Inl e)
        \<or> (\<exists>text e. check_output_decode (ipmitool t) = Inr text
               \<and> parse_fans (split_on CHR 0x0A text) Map.empty = Inl e)"
      using a unfolding check_output_decode_Inl check_output_decode_Inr by blast
    then have e: "w' = log ''WARNING'' ''Failed to get fan information''
                        (spawn [''ipmitool'', ''sdr'', ''type'', ''fan''] w3)"
      using fan_step_tool_fails fan_step_parse_fails w' by metis
    show ?thesis
      by (simp add: e log_fields spawn_fields o3 f3 l3)
  qed
  from good bad show ?thesis by blast
qed

theorem sample_once_fan_witness:
  "ops (snd (sample_once ''out'' 10 lab_tick lab_world)) =
     [Append_write ''out/cpu.csv'' (''2024-05-01 12:00:00,1.5,0.5,98.0'' @ [CHR 0x0A]),
      Append_write ''out/mem.csv''
        (''2024-05-01 12:00:00,15883.5,15883.5,15883.5,15883.5,15883.5,15883.5'' @ [CHR 0x0A]),
      Append_write ''out/fan.csv'' (''2024-05-01 12:00:00,4200,4300,0,0,3000'' @ [CHR 0x0A])]
   \<and> files (snd (sample_once ''out'' 10 lab_tick lab_world)) ''out/fan.csv'' =
       Some (''stale'' @ ''2024-05-01 12:00:00,4200,4300,0,0,3000'' @ [CHR 0x0A])
   \<and> logfile (snd (sample_once ''out'' 10 lab_tick lab_world)) = []
   \<and> ops (snd (sample_once ''out'' 10 (lab_tick\<lparr>ipmitool := Fault OSError\<rparr>) lab_world)) =
     [Append_write ''out/cpu.csv'' (''2024-05-01 12:00:00,1.5,0.5,98.0'' @ [CHR 0x0A]),
      Append_write ''out/mem.csv''
        (''2024-05-01 12:00:00,15883.5,15883.5,15883.5,15883.5,15883.5,15883.5'' @ [CHR 0x0A])]
   \<and> files (snd (sample_once ''out'' 10 (lab_tick\<lparr>ipmitool := Fault OSError\<rparr>) lab_world)) ''out/fan.csv'' =
       Some ''stale''
   \<and> logfile (snd (sample_once ''out'' 10 (lab_tick\<lparr>ipmitool := Fault OSError\<rparr>) lab_world)) =
       [''[2024-05-01 12:00:01] [WARNING] Failed to get fan information'' @ [CHR 0x0A]]"
proof -
  have p: "path_join ''out'' ''cpu.csv'' = ''out/cpu.csv''" "path_join ''out'' ''mem.csv'' = ''out/mem.csv''"
    "path_join ''out'' ''fan.csv'' = ''out/fan.csv''"
    by (simp_all add: path_join_def)
  have a: "ops (snd (sample_once ''out'' 10 lab_tick lab_world)) =
     [Append_write ''out/cpu.csv'' (''2024-05-01 12:00:00,1.5,0.5,98.0'' @ [CHR 0x0A]),
      Append_write ''out/mem.csv''
        (''2024-05-01 12:00:00,15883.5,15883.5,15883.5,15883.5,15883.5,15883.5'' @ [CHR 0x0A]),
      Append_write ''out/fan.csv'' (''2024-05-01 12:00:00,4200,4300,0,0,3000'' @ [CHR 0x0A])]
   \<and> files (snd (sample_once ''out'' 10 lab_tick lab_world)) ''out/fan.csv'' =
       Some (''stale'' @ ''2024-05-01 12:00:00,4200,4300,0,0,3000'' @ [CHR 0x0A])
   \<and> logfile (snd (sample_once ''out'' 10 lab_tick lab_world)) = []"
    using sample_once_fan [where t = lab_tick and out = "''out''" and iv = 10 and w = lab_world,
        OF lab_tick_fields(1,2) prod.collapse [symmetric] refl refl refl refl]
      lab_parse
    by (simp add: lab_tick_fields(3) lab_world_fields lab_world_more p cpu_row_def mem_row_def Let_def)
  have b: "ops (snd (sample_once ''out'' 10 (lab_tick\<lparr>ipmitool := Fault OSError\<rparr>) lab_world)) =
     [Append_write ''out/cpu.csv'' (''2024-05-01 12:00:00,1.5,0.5,98.0'' @ [CHR 0x0A]),
      Append_write ''out/mem.csv''
        (''2024-05-01 12:00:00,15883.5,15883.5,15883.5,15883.5,15883.5,15883.5'' @ [CHR 0x0A])]
   \<and> files (snd (sample_once ''out'' 10 (lab_tick\<lparr>ipmitool := Fault OSError\<rparr>) lab_world)) ''out/fan.csv'' =
       Some ''stale''
   \<and> logfile (snd (sample_once ''out'' 10 (lab_tick\<lparr>ipmitool := Fault OSError\<rparr>) lab_world)) =
       [''[2024-05-01 12:00:01] [WARNING] Failed to get fan information'' @ [CHR 0x0A]]"
    using sample_once_fan [where t = "lab_tick\<lparr>ipmitool := Fault OSError\<rparr>" and out = "''out''"
          and iv = 10 and w = lab_world
          and c = "\<lparr>cpu_user = ''1.5'', cpu_system = ''0.5'', cpu_idle = ''98.0''\<rparr>"
          and m = "\<lparr>mem_total = 16654970880, mem_used = 1, mem_free = 2, mem_shared = 3,
                              mem_buffers = 4, mem_cached = 5, mem_available = 6\<rparr>",
        OF _ _ prod.collapse [symmetric] refl refl refl refl]
    by (simp add: lab_tick_fields lab_world_fields lab_world_more p cpu_row_def mem_row_def)
  from a b show ?thesis by blast
qed

section \<open>\<^verbatim>\<open>monitor_system\<close>: whole runs\<close>

lemma fan_step_ops:
  "\<exists>rows. ops (fan_step out ts t w) = ops w @ rows \<and> (\<forall>x \<in> set rows. \<exists>q text. x = Append_write q text)"
  by (simp add: fan_step_def Let_def log_fields spawn_fields append_file_fields split: sum.splits)

lemma sample_once_ops:
  assumes "sample_once out iv t w = (r, w')"
  shows "\<exists>rows. ops w' = ops w @ rows \<and> (\<forall>x \<in> set rows. \<exists>q text. x = Append_write q text)"
proof (cases "cpu_times_percent t")
  case (Inl e)
  with assms show ?thesis by (auto simp: sample_once_def strftime_now_def)
next
  case c: (Inr c)
  show ?thesis
  proof (cases "virtual_memory t")
    case (Inl e)
    with assms c show ?thesis
      by (auto simp: sample_once_def strftime_now_def Let_def append_file_fields)
  next
    case (Inr m)
    define w3 where
      "w3 = append_file (path_join out ''mem.csv'') (mem_row (mb_text w) (clock w (reads w)) m)
             (append_file (path_join out ''cpu.csv'') (cpu_row (clock w (reads w)) c)
                (w\<lparr>reads := Suc (reads w)\<rparr>))"
    have w': "w' = fan_step out (clock w (reads w)) t w3"
      using assms by (simp add: sample_once_ok [OF c Inr] w3_def)
    obtain rows where rows: "ops w' = ops w3 @ rows" "\<forall>x \<in> set rows. \<exists>q text. x = Append_write q text"
      using fan_step_ops [of out "clock w (reads w)" t w3] w' by blast
    have "ops w3 = ops w @ [Append_write (path_join out ''cpu.csv'') (cpu_row (clock w (reads w)) c),
                           Append_write (path_join out ''mem.csv'') (mem_row (mb_text w) (clock w (reads w)) m)]"
      by (simp add: w3_def append_file_fields)
    with rows have "ops w' = ops w @ ([Append_write (path_join out ''cpu.csv'') (cpu_row (clock w (reads w)) c),
                           Append_write (path_join out ''mem.csv'') (mem_row (mb_text w) (clock w (reads w)) m)] @ rows)
       \<and> (\<forall>x \<in> set ([Append_write (path_join out ''cpu.csv'') (cpu_row (clock w (reads w)) c),
                           Append_write (path_join out ''mem.csv'') (mem_row (mb_text w) (clock w (reads w)) m)] @ rows). \<exists>q text. x = Append_write q text)"
      by auto
    then show ?thesis by blast
  qed
qed

lemma sampling_loop_ops:
  "sampling_loop out iv ts w = (st, w') \<Longrightarrow>
   \<exists>rows. ops w' = ops w @ rows \<and> (\<forall>x \<in> set rows. \<exists>q text. x = Append_write q text)"
proof (induction ts arbitrary: w)
  case Nil
  then show ?case by simp
next
  case (Cons t ts)
  obtain r w1 where s: "sample_once out iv t w = (r, w1)" by (cases "sample_once out iv t w")
  from sample_once_ops [OF s] obtain rows1 where
    r1: "ops w1 = ops w @ rows1" "\<forall>x \<in> set rows1. \<exists>q text. x = Append_write q text" by blast
  show ?case
  proof (cases r)
    case (Inl e)
    with Cons.prems s have "w' = w1" by simp
    with r1 show ?thesis by blast
  next
    case (Inr u)
    with Cons.prems s have "sampling_loop out iv ts w1 = (st, w')" by simp
    from Cons.IH [OF this] obtain rows2 where
      r2: "ops w' = ops w1 @ rows2" "\<forall>x \<in> set rows2. \<exists>q text. x = Append_write q text" by blast
    with r1 have "ops w' = ops w @ (rows1 @ rows2)
      \<and> (\<forall>x \<in> set (rows1 @ rows2). \<exists>q text. x = Append_write q text)" by auto
    then show ?thesis by blast
  qed
qed


lemma monitor_system_ops:
  assumes "makedirs w out = None" and "monitor_system out iv ts w = (st, w')"
  shows "\<exists>rows. ops w' = ops w @ [Truncate_write (path_join out ''cpu.csv'') cpu_header,
                                  Truncate_write (path_join out ''fan.csv'') fan_header,
                                  Truncate_write (path_join out ''mem.csv'') mem_header] @ rows
           \<and> (\<forall>x \<in> set rows. \<exists>q text. x = Append_write q text)"
proof -
  obtain s1 w1 where l: "sampling_loop out iv ts (write_headers out w) = (s1, w1)"
    by (cases "sampling_loop out iv ts (write_headers out w)")
  from sampling_loop_ops [OF l] obtain rows where
    r: "ops w1 = ops (write_headers out w) @ rows" "\<forall>x \<in> set rows. \<exists>q text. x = Append_write q text"
    by blast
  have "ops w' = ops w1"
    using assms l by (auto simp: monitor_system_def log_fields split: run_status.splits if_splits)
  with r show ?thesis by (auto simp: write_headers_def write_file_fields)
qed

lemma monitor_system_no_directory:
  "makedirs w out = Some e \<Longrightarrow> monitor_system out iv ts w = (Raised e, w)"
  by (simp add: monitor_system_def)



lemma sampling_loop_append:
  "sampling_loop out iv pre w = (Running, w1) \<Longrightarrow>
   sampling_loop out iv (pre @ rest) w = sampling_loop out iv rest w1"
proof (induction pre arbitrary: w)
  case Nil
  then show ?case by simp
next
  case (Cons t pre)
  obtain r w0 where s: "sample_once out iv t w = (r, w0)" by (cases "sample_once out iv t w")
  show ?case
  proof (cases r)
    case (Inl e)
    with Cons.prems s show ?thesis by simp
  next
    case (Inr u)
    with Cons.prems s have "sampling_loop out iv pre w0 = (Running, w1)" by simp
    from Cons.IH [OF this] show ?thesis using s Inr by simp
  qed
qed

lemma sampling_loop_step:
  "fst (sample_once out iv t w) = Inr u \<Longrightarrow>
   sampling_loop out iv (t # ts) w = sampling_loop out iv ts (snd (sample_once out iv t w))"
  by (cases "sample_once out iv t w") auto

lemma fan_step_log:
  "\<exists>stamps. logfile (fan_step out ts t w) =
     logfile w @ map (\<lambda>s. ''['' @ s @ ''] [WARNING] Failed to get fan information'' @ [CHR 0x0A]) stamps"
proof -
  have a: "logfile w = logfile w @ map (\<lambda>s. ''['' @ s @ ''] [WARNING] Failed to get fan information'' @ [CHR 0x0A]) []"
    by simp
  have b: "logfile w @ [''['' @ clock w (reads w) @ ''] [WARNING] Failed to get fan information'' @ [CHR 0x0A]]
     = logfile w @ map (\<lambda>s. ''['' @ s @ ''] [WARNING] Failed to get fan information'' @ [CHR 0x0A]) [clock w (reads w)]"
    by simp
  have "logfile (fan_step out ts t w) = logfile w
     \<or> logfile (fan_step out ts t w) =
         logfile w @ [''['' @ clock w (reads w) @ ''] [WARNING] Failed to get fan information'' @ [CHR 0x0A]]"
    by (simp add: fan_step_def Let_def log_fields spawn_fields append_file_fields split: sum.splits)
  with a b show ?thesis by metis
qed

lemma sample_once_log:
  assumes "sample_once out iv t w = (r, w')"
  shows "\<exists>stamps. logfile w' =
     logfile w @ map (\<lambda>s. ''['' @ s @ ''] [WARNING] Failed to get fan information'' @ [CHR 0x0A]) stamps"
proof (cases "cpu_times_percent t")
  case (Inl e)
  with assms have "logfile w' = logfile w" by (auto simp: sample_once_def strftime_now_def)
  then have "logfile w' = logfile w @ map (\<lambda>s. ''['' @ s @ ''] [WARNING] Failed to get fan information'' @ [CHR 0x0A]) []"
    by simp
  then show ?thesis by blast
next
  case c: (Inr c)
  show ?thesis
  proof (cases "virtual_memory t")
    case (Inl e)
    with assms c have "logfile w' = logfile w"
      by (auto simp: sample_once_def strftime_now_def Let_def append_file_fields)
    then have "logfile w' = logfile w @ map (\<lambda>s. ''['' @ s @ ''] [WARNING] Failed to get fan information'' @ [CHR 0x0A]) []"
      by simp
    then show ?thesis by blast
  next
    case (Inr m)
    define w3 where
      "w3 = append_file (path_join out ''mem.csv'') (mem_row (mb_text w) (clock w (reads w)) m)
             (append_file (path_join out ''cpu.csv'') (cpu_row (clock w (reads w)) c)
                (w\<lparr>reads := Suc (reads w)\<rparr>))"
    have w': "w' = fan_step out (clock w (reads w)) t w3"
      using assms by (simp add: sample_once_ok [OF c Inr] w3_def)
    have "logfile w3 = logfile w" by (simp add: w3_def append_file_fields)
    with fan_step_log [of out "clock w (reads w)" t w3] w' show ?thesis by simp
  qed
qed

lemma sampling_loop_log:
  "sampling_loop out iv ts w = (st, w') \<Longrightarrow>
   \<exists>stamps. logfile w' =
     logfile w @ map (\<lambda>s. ''['' @ s @ ''] [WARNING] Failed to get fan information'' @ [CHR 0x0A]) stamps"
proof (induction ts arbitrary: w)
  case Nil
  then have "logfile w' = logfile w @ map (\<lambda>s. ''['' @ s @ ''] [WARNING] Failed to get fan information'' @ [CHR 0x0A]) []"
    by simp
  then show ?case by blast
next
  case (Cons t ts)
  obtain r w1 where s: "sample_once out iv t w = (r, w1)" by (cases "sample_once out iv t w")
  from sample_once_log [OF s] obtain st1 where
    l1: "logfile w1 = logfile w @ map (\<lambda>s. ''['' @ s @ ''] [WARNING] Failed to get fan information'' @ [CHR 0x0A]) st1"
    by blast
  show ?case
  proof (cases r)
    case (Inl e)
    with Cons.prems s have "w' = w1" by simp
    with l1 show ?thesis by blast
  next
    case (Inr u)
    with Cons.prems s have "sampling_loop out iv ts w1 = (st, w')" by simp
    from Cons.IH [OF this] obtain st2 where
      "logfile w' = logfile w1 @ map (\<lambda>s. ''['' @ s @ ''] [WARNING] Failed to get fan information'' @ [CHR 0x0A]) st2"
      by blast
    with l1 have "logfile w' = logfile w @ map (\<lambda>s. ''['' @ s @ ''] [WARNING] Failed to get fan information'' @ [CHR 0x0A]) (st1 @ st2)"
      by simp
    then show ?thesis by blast
  qed
qed

lemma sample_once_fields_fan_ok:
  assumes "cpu_times_percent t = Inr c" and "virtual_memory t = Inr m"
    and "check_output_decode (ipmitool t) = Inr fan_output"
    and "parse_fans (split_on CHR 0x0A fan_output) Map.empty = Inr fans"
  shows "fst (sample_once out iv t w) = time_sleep iv t"
    and "reads (snd (sample_once out iv t w)) = Suc (reads w)"
    and "clock (snd (sample_once out iv t w)) = clock w"
    and "logfile (snd (sample_once out iv t w)) = logfile w"
  by (simp_all add: sample_once_ok [OF assms(1,2)] fan_step_ok [OF assms(3,4)]
      append_file_fields spawn_fields)

lemma sample_once_fields_tool_fails:
  assumes "cpu_times_percent t = Inr c" and "virtual_memory t = Inr m"
    and "check_output_decode (ipmitool t) = Inl e"
  shows "fst (sample_once out iv t w) = time_sleep iv t"
    and "reads (snd (sample_once out iv t w)) = Suc (Suc (reads w))"
    and "clock (snd (sample_once out iv t w)) = clock w"
    and "logfile (snd (sample_once out iv t w)) =
           logfile w @ [''['' @ clock w (Suc (reads w)) @ ''] [WARNING] Failed to get fan information'' @ [CHR 0x0A]]"
  by (simp_all add: sample_once_ok [OF assms(1,2)] fan_step_tool_fails [OF assms(3)]
      append_file_fields spawn_fields log_fields)

text \<open>
  C9. Let the earlier iterations have completed, and let the stop signal arrive during the
  sleep of the next one (a sleep on a non-negative interval, after the CPU and memory
  figures were read). Then the iteration raises \<^verbatim>\<open>KeyboardInterrupt\<close>, the method returns,
  and the state it leaves is the state at the signal with one more reading of the clock
  and one more entry in the log and on the console, the INFO line \<^verbatim>\<open>Monitoring stopped\<close>:
  no file is written after the signal, and what the later iterations would have read
  plays no part. Everything the run logged before is a WARNING line of the fan step.
\<close>

theorem stop_signal_during_sleep:
  assumes "sampling_loop out iv pre (write_headers out w) = (Running, w1)"
    and "cpu_times_percent t = Inr c" and "virtual_memory t = Inr m"
    and "0 \<le> iv" and "sleep t = Some KeyboardInterrupt"
    and "sample_once out iv t w1 = (r, w2)"
    and "stopped = ''['' @ clock w2 (reads w2) @ ''] [INFO] Monitoring stopped''"
    and "makedirs w out = None"
  shows "r = Inl KeyboardInterrupt
    \<and> monitor_system out iv (pre @ t # post) w =
        (Returned, w2\<lparr>reads := Suc (reads w2),
                      console := console w2 @ [stopped],
                      logfile := logfile w2 @ [stopped @ [CHR 0x0A]]\<rparr>)
    \<and> (\<exists>stamps. logfile w2 =
          logfile w @ map (\<lambda>s. ''['' @ s @ ''] [WARNING] Failed to get fan information'' @ [CHR 0x0A]) stamps)"
proof -
  have r: "r = Inl KeyboardInterrupt"
    using assms(4,5,6) by (auto simp: sample_once_ok [OF assms(2,3)] time_sleep_def)
  have "sampling_loop out iv (pre @ t # post) (write_headers out w) = (Raised KeyboardInterrupt, w2)"
    using sampling_loop_append [OF assms(1), of "t # post"] assms(6) r by simp
  then have m: "monitor_system out iv (pre @ t # post) w =
        (Returned, log ''INFO'' ''Monitoring stopped'' w2)"
    by (simp add: monitor_system_def assms(8))
  obtain s1 where s1: "logfile w1 = logfile (write_headers out w) @
      map (\<lambda>s. ''['' @ s @ ''] [WARNING] Failed to get fan information'' @ [CHR 0x0A]) s1"
    using sampling_loop_log [OF assms(1)] by blast
  obtain s2 where s2: "logfile w2 = logfile w1 @
      map (\<lambda>s. ''['' @ s @ ''] [WARNING] Failed to get fan information'' @ [CHR 0x0A]) s2"
    using sample_once_log [OF assms(6)] by blast
  have "logfile w2 = logfile w @
      map (\<lambda>s. ''['' @ s @ ''] [WARNING] Failed to get fan information'' @ [CHR 0x0A]) (s1 @ s2)"
    by (simp add: s1 s2 write_headers_fields)
  then have l: "\<exists>stamps. logfile w2 =
          logfile w @ map (\<lambda>s. ''['' @ s @ ''] [WARNING] Failed to get fan information'' @ [CHR 0x0A]) stamps"
    by blast
  from r m l show ?thesis by (simp add: log_update assms(7))
qed

theorem stop_signal_during_sleep_witness:
  "monitor_system ''out'' 10
     [lab_tick, lab_tick\<lparr>ipmitool := Fault OSError\<rparr>, lab_tick\<lparr>sleep := Some KeyboardInterrupt\<rparr>, lab_tick]
     lab_world =
   (Returned, snd (monitor_system ''out'' 10
     [lab_tick, lab_tick\<lparr>ipmitool := Fault OSError\<rparr>, lab_tick\<lparr>sleep := Some KeyboardInterrupt\<rparr>, lab_tick]
     lab_world))
   \<and> logfile (snd (monitor_system ''out'' 10
     [lab_tick, lab_tick\<lparr>ipmitool := Fault OSError\<rparr>, lab_tick\<lparr>sleep := Some KeyboardInterrupt\<rparr>, lab_tick]
     lab_world)) =
       [''[2024-05-01 12:00:02] [WARNING] Failed to get fan information'' @ [CHR 0x0A],
        ''[2024-05-01 12:00:04] [INFO] Monitoring stopped'' @ [CHR 0x0A]]"
proof -
  define w0 where "w0 = write_headers ''out'' lab_world"
  define wa where "wa = snd (sample_once ''out'' 10 lab_tick w0)"
  define w1 where "w1 = snd (sample_once ''out'' 10 (lab_tick\<lparr>ipmitool := Fault OSError\<rparr>) wa)"
  define w2 where "w2 = snd (sample_once ''out'' 10 (lab_tick\<lparr>sleep := Some KeyboardInterrupt\<rparr>) w1)"
  have d: "check_output_decode (ipmitool lab_tick) =
             Inr (''FAN1 | 4200 RPM | ok'' @ [CHR 0x0A] @ ''FAN2 | 4300 RPM | ok'' @ [CHR 0x0A]
                  @ ''FANA | 3000 RPM | ok'' @ [CHR 0x0A])"
    by (simp add: lab_tick_fields check_output_decode_def)
  have f0: "reads w0 = 0" "clock w0 = clock lab_world" "logfile w0 = []"
    by (simp_all add: w0_def write_headers_fields lab_world_fields)
  have fa: "fst (sample_once ''out'' 10 lab_tick w0) = Inr ()"
    "reads wa = 1" "clock wa = clock lab_world" "logfile wa = []"
    using sample_once_fields_fan_ok [OF lab_tick_fields(1,2) d lab_parse, of "''out''" 10 w0]
    by (simp_all add: wa_def f0 time_sleep_def lab_tick_fields)
  have f1: "fst (sample_once ''out'' 10 (lab_tick\<lparr>ipmitool := Fault OSError\<rparr>) wa) = Inr ()"
    "reads w1 = 3" "clock w1 = clock lab_world"
    "logfile w1 = [''[2024-05-01 12:00:02] [WARNING] Failed to get fan information'' @ [CHR 0x0A]]"
    using sample_once_fields_tool_fails [where t = "lab_tick\<lparr>ipmitool := Fault OSError\<rparr>"
        and e = OSError and out = "''out''" and iv = 10 and w = wa,
        OF _ _ _]
    by (simp_all add: w1_def fa time_sleep_def lab_tick_fields check_output_decode_def
        lab_world_clock)
  have f2: "reads w2 = 4" "clock w2 = clock lab_world"
    "logfile w2 = [''[2024-05-01 12:00:02] [WARNING] Failed to get fan information'' @ [CHR 0x0A]]"
    using sample_once_fields_fan_ok [where t = "lab_tick\<lparr>sleep := Some KeyboardInterrupt\<rparr>"
        and out = "''out''" and iv = 10 and w = w1, OF _ _ _ lab_parse]
    by (simp_all add: w2_def f1 lab_tick_fields check_output_decode_def)
  have "sampling_loop ''out'' 10 [lab_tick, lab_tick\<lparr>ipmitool := Fault OSError\<rparr>] w0 =
          sampling_loop ''out'' 10 [lab_tick\<lparr>ipmitool := Fault OSError\<rparr>] wa"
    unfolding wa_def by (rule sampling_loop_step [OF fa(1)])
  also have "\<dots> = sampling_loop ''out'' 10 [] w1"
    unfolding w1_def by (rule sampling_loop_step [OF f1(1)])
  also have "\<dots> = (Running, w1)" by simp
  finally have pre: "sampling_loop ''out'' 10 [lab_tick, lab_tick\<lparr>ipmitool := Fault OSError\<rparr>]
               (write_headers ''out'' lab_world) = (Running, w1)"
    unfolding w0_def .
  have res: "monitor_system ''out'' 10
     ([lab_tick, lab_tick\<lparr>ipmitool := Fault OSError\<rparr>]
        @ lab_tick\<lparr>sleep := Some KeyboardInterrupt\<rparr> # [lab_tick]) lab_world =
        (Returned, w2\<lparr>reads := Suc (reads w2),
                      console := console w2 @ [''['' @ clock w2 (reads w2) @ ''] [INFO] Monitoring stopped''],
                      logfile := logfile w2 @ [(''['' @ clock w2 (reads w2) @ ''] [INFO] Monitoring stopped'') @ [CHR 0x0A]]\<rparr>)"
    using stop_signal_during_sleep [where t = "lab_tick\<lparr>sleep := Some KeyboardInterrupt\<rparr>"
        and post = "[lab_tick]" and iv = 10, OF pre _ _ _ _ prod.collapse [symmetric] refl]
    by (simp add: lab_tick_fields w2_def lab_world_more)
  show ?thesis
    using res by (simp add: f2 lab_world_clock)
qed

text \<open>
  C10. Where the output directory can be created, starting the sampler writes the three
  headers in truncating mode before the loop does anything: with no iteration run yet,
  each of \<^verbatim>\<open>cpu.csv\<close>, \<^verbatim>\<open>fan.csv\<close> and \<^verbatim>\<open>mem.csv\<close> holds its header line and nothing else,
  whatever it held before; and the writes of every run begin with these three.
\<close>

theorem startup_truncates:
  assumes "makedirs w out = None"
  shows "fst (monitor_system out iv [] w) = Running
   \<and> files (snd (monitor_system out iv [] w)) (path_join out ''cpu.csv'')
       = Some (''Timestamp,User%,System%,Idle%'' @ [CHR 0x0A])
   \<and> files (snd (monitor_system out iv [] w)) (path_join out ''fan.csv'')
       = Some (''Timestamp,FAN1_RPM,FAN2_RPM,FAN3_RPM,FAN4_RPM,FANA_RPM'' @ [CHR 0x0A])
   \<and> files (snd (monitor_system out iv [] w)) (path_join out ''mem.csv'')
       = Some (''Timestamp,Total_Memory_MB,Used_Memory_MB,Free_Memory_MB,Shared_Memory_MB,Buffer_Cache_MB,Available_Memory_MB'' @ [CHR 0x0A])
   \<and> (\<exists>rest. ops (snd (monitor_system out iv ts w)) =
         ops w @ [Truncate_write (path_join out ''cpu.csv'') (''Timestamp,User%,System%,Idle%'' @ [CHR 0x0A]),
                  Truncate_write (path_join out ''fan.csv'')
                    (''Timestamp,FAN1_RPM,FAN2_RPM,FAN3_RPM,FAN4_RPM,FANA_RPM'' @ [CHR 0x0A]),
                  Truncate_write (path_join out ''mem.csv'')
                    (''Timestamp,Total_Memory_MB,Used_Memory_MB,Free_Memory_MB,Shared_Memory_MB,Buffer_Cache_MB,Available_Memory_MB'' @ [CHR 0x0A])]
           @ rest)"
proof -
  have a: "monitor_system out iv [] w = (Running, write_headers out w)"
    by (simp add: monitor_system_def assms)
  obtain rows where "ops (snd (monitor_system out iv ts w)) =
      ops w @ [Truncate_write (path_join out ''cpu.csv'') cpu_header,
               Truncate_write (path_join out ''fan.csv'') fan_header,
               Truncate_write (path_join out ''mem.csv'') mem_header] @ rows"
    using monitor_system_ops [OF assms prod.collapse [symmetric]] by blast
  then have b: "\<exists>rest. ops (snd (monitor_system out iv ts w)) =
         ops w @ [Truncate_write (path_join out ''cpu.csv'') cpu_header,
                  Truncate_write (path_join out ''fan.csv'') fan_header,
                  Truncate_write (path_join out ''mem.csv'') mem_header] @ rest"
    by blast
  show ?thesis
    using b by (simp add: a write_headers_fields) (simp add: cpu_header_def fan_header_def mem_header_def)
qed

theorem startup_truncates_witness:
  "files lab_world ''out/cpu.csv'' =
     Some (''Timestamp,User%,System%,Idle%'' @ [CHR 0x0A]
           @ ''2024-04-30 09:00:00,1.0,2.0,97.0'' @ [CHR 0x0A])
   \<and> files (snd (monitor_system ''out'' 10 [] lab_world)) ''out/cpu.csv''
       = Some (''Timestamp,User%,System%,Idle%'' @ [CHR 0x0A])
   \<and> files lab_world ''out/fan.csv'' = Some ''stale''
   \<and> files (snd (monitor_system ''out'' 10 [] lab_world)) ''out/fan.csv''
       = Some (''Timestamp,FAN1_RPM,FAN2_RPM,FAN3_RPM,FAN4_RPM,FANA_RPM'' @ [CHR 0x0A])
   \<and> files lab_world ''out/mem.csv'' = None
   \<and> files (snd (monitor_system ''out'' 10 [] lab_world)) ''out/mem.csv''
       = Some (''Timestamp,Total_Memory_MB,Used_Memory_MB,Free_Memory_MB,Shared_Memory_MB,Buffer_Cache_MB,Available_Memory_MB'' @ [CHR 0x0A])"
proof -
  have p: "path_join ''out'' ''cpu.csv'' = ''out/cpu.csv''" "path_join ''out'' ''mem.csv'' = ''out/mem.csv''"
    "path_join ''out'' ''fan.csv'' = ''out/fan.csv''"
    by (simp_all add: path_join_def)
  have l: "files lab_world ''out/cpu.csv'' =
     Some (''Timestamp,User%,System%,Idle%'' @ [CHR 0x0A]
           @ ''2024-04-30 09:00:00,1.0,2.0,97.0'' @ [CHR 0x0A])"
    "files lab_world ''out/fan.csv'' = Some ''stale''"
    "files lab_world ''out/mem.csv'' = None"
    by (simp_all add: lab_world_def)
  show ?thesis
    using startup_truncates [of lab_world "''out''" 10 "[]"] l
    unfolding p by (simp add: lab_world_more)
qed

end
